theory Spec2Isabelle
  imports Complex_Main "HOL-Library.Sublist" "HOL-Library.Log_Nat"
begin

section \<open>Common data: bytes, strings, exceptions\<close>

text \<open>
  A Python \<open>bytes\<close> value is a list of 8-bit characters, so that the byte literals of the
  source (\<open>b"%PDF"\<close>) read the same here (\<open>''%PDF''\<close>).  A Python \<open>str\<close> is a
  \<open>string\<close> of its characters.  The string methods below (\<open>lower\<close>, \<open>strip\<close>, and
  \<open>upper\<close> further down) are \<open>str.lower\<close>, \<open>str.strip\<close> and \<open>str.upper\<close> as they act
  on ASCII strings (\<open>isascii\<close>, Python's \<open>str.isascii\<close>).  On other strings the
  methods of Python follow the Unicode tables: \<open>str.strip\<close> also removes the white
  space outside ASCII (U+0085, U+00A0, U+2003 and others) and \<open>str.lower\<close> also lowers
  the letters outside ASCII; this is not modelled, and what is proved below of the
  comparison of names is stated for ASCII names.
\<close>

type_synonym bytes = "char list"

text \<open>
  The exceptions that the modelled code raises or lets through.  \<open>ClientError code text\<close>
  is botocore's error with \<open>e.response["Error"]["Code"] = code\<close> and \<open>str(e) = text\<close>;
  \<open>OtherException cls text\<close> is any other subclass of \<open>Exception\<close> with its \<open>str(e)\<close>.
\<close>

datatype exn =
    AssertionError
  | ValueError string
  | RuntimeError string
  | ClientError string string
  | OtherException string string

fun str_exn :: "exn \<Rightarrow> string" where
  "str_exn AssertionError = ''''"
| "str_exn (ValueError m) = m"
| "str_exn (RuntimeError m) = m"
| "str_exn (ClientError c m) = m"
| "str_exn (OtherException c m) = m"

text \<open>\<open>str.lower\<close> on an ASCII string: the letters \<open>A\<close> to \<open>Z\<close> are lowered.\<close>

definition lower_char :: "char \<Rightarrow> char" where
  "lower_char c =
     (case map_of (zip ''ABCDEFGHIJKLMNOPQRSTUVWXYZ'' ''abcdefghijklmnopqrstuvwxyz'') c of
        Some d \<Rightarrow> d
      | None \<Rightarrow> c)"

definition lower :: "string \<Rightarrow> string" where
  "lower s = map lower_char s"

text \<open>
  \<open>str.strip\<close> on an ASCII string: the ASCII characters that \<open>str.isspace\<close> accepts
  (tab to carriage return, the four separators \<open>0x1C\<close> to \<open>0x1F\<close>, the blank) are
  removed at both ends.
\<close>

definition is_space :: "char \<Rightarrow> bool" where
  "is_space c \<longleftrightarrow>
     c \<in> set [CHR 0x09, CHR 0x0A, CHR 0x0B, CHR 0x0C, CHR 0x0D,
               CHR 0x1C, CHR 0x1D, CHR 0x1E, CHR 0x1F, CHR 0x20]"

definition strip :: "string \<Rightarrow> string" where
  "strip s = rev (dropWhile is_space (rev (dropWhile is_space s)))"


section \<open>models.py: the persistent records\<close>

type_synonym datetime = nat

record file_row =
  f_id :: string
  f_owner_id :: string
  f_user_filename :: string
  f_mime_type :: "string option"
  f_byte_size :: "int option"
  f_sha256 :: string
  f_storage_uri :: string
  f_status :: string

record task_run =
  tr_id :: string
  tr_file_id :: string
  tr_name :: string
  tr_params :: "(string \<times> string) list"
  tr_status :: string
  tr_started_at :: "datetime option"
  tr_finished_at :: "datetime option"
  tr_error :: "string option"

text \<open>
  The two tables the worker reads and writes.  A table is the list of its rows;
  \<open>db.get(Model, key)\<close> returns the row with that primary key or \<open>None\<close>, and
  \<open>db.add(row); db.commit()\<close> writes the row back under its primary key.
\<close>

record database =
  db_task_runs :: "task_run list"
  db_files :: "file_row list"

definition get_task_run :: "database \<Rightarrow> string \<Rightarrow> task_run option" where
  "get_task_run db k = find (\<lambda>r. tr_id r = k) (db_task_runs db)"

definition get_file :: "database \<Rightarrow> string \<Rightarrow> file_row option" where
  "get_file db k = find (\<lambda>r. f_id r = k) (db_files db)"

definition commit_task_run :: "database \<Rightarrow> task_run \<Rightarrow> database" where
  "commit_task_run db tr =
     (if get_task_run db (tr_id tr) \<noteq> None
      then db\<lparr>db_task_runs := map (\<lambda>r. if tr_id r = tr_id tr then tr else r) (db_task_runs db)\<rparr>
      else db\<lparr>db_task_runs := db_task_runs db @ [tr]\<rparr>)"

section \<open>s3util.py: storage addresses and the object store\<close>

text \<open>
  \<open>split_s3_uri\<close>: the \<open>assert\<close> raises \<open>AssertionError\<close>; unpacking
  \<open>rest.split("/", 1)\<close> into two names raises \<open>ValueError\<close> when \<open>rest\<close> has no slash.
\<close>

definition split_s3_uri :: "string \<Rightarrow> exn + (string \<times> string)" where
  "split_s3_uri uri =
     (if \<not> prefix ''s3://'' uri then Inl AssertionError
      else let rest = drop 5 uri in
        if CHR ''/'' \<in> set rest
        then Inr (takeWhile (\<lambda>c. c \<noteq> CHR ''/'') rest,
                  drop 1 (dropWhile (\<lambda>c. c \<noteq> CHR ''/'') rest))
        else Inl (ValueError ''not enough values to unpack (expected 2, got 1)''))"

text \<open>
  The object store as the code sees it: \<open>get_object(Bucket, Key)["Body"].read()\<close> either
  returns the object's bytes or raises.
\<close>

type_synonym s3_store = "string \<Rightarrow> string \<Rightarrow> exn + bytes"

section \<open>tasks/manager.py: the handler registry\<close>

text \<open>
  A handler has a name and one entry point.  What a handler does to the outside world
  (artifacts written, objects stored) is a change of a world state \<open>'w\<close>; it returns
  normally (\<open>Inr ()\<close>) or raises (\<open>Inl e\<close>).
\<close>

record 'w handler =
  h_name :: string
  h_run :: "task_run \<Rightarrow> file_row \<Rightarrow> bytes \<Rightarrow> 'w \<Rightarrow> (exn + unit) \<times> 'w"

type_synonym 'w task_manager = "string \<rightharpoonup> 'w handler"



definition manager_run ::
  "'w task_manager \<Rightarrow> task_run \<Rightarrow> file_row \<Rightarrow> bytes \<Rightarrow> 'w \<Rightarrow> (exn + unit) \<times> 'w" where
  "manager_run handlers tr f data w =
     (let key = lower (strip (tr_name tr)) in
      case handlers key of
        None \<Rightarrow> (Inl (ValueError (''unknown task: '' @ key)), w)
      | Some h \<Rightarrow> h_run h tr f data w)"

section \<open>worker.py: the task-run state machine\<close>

text \<open>\<open>_mark\<close>: \<open>now\<close> is the value \<open>datetime.utcnow()\<close> returns in this call.\<close>

definition mark ::
  "database \<Rightarrow> task_run \<Rightarrow> string \<Rightarrow> string option \<Rightarrow> datetime \<Rightarrow> database \<times> task_run" where
  "mark db tr status err now =
     (let tr1 = tr\<lparr>tr_status := status\<rparr>;
          tr2 = (if status = ''RUNNING'' \<and> tr_started_at tr1 = None
                 then tr1\<lparr>tr_started_at := Some now\<rparr> else tr1);
          tr3 = (if status \<in> set [''SUCCEEDED'', ''FAILED'']
                 then tr2\<lparr>tr_finished_at := Some now\<rparr> else tr2);
          tr4 = tr3\<lparr>tr_error := err\<rparr>
      in (commit_task_run db tr4, tr4))"

text \<open>\<open>_get_source_bytes\<close> of the worker: one fetch, from the recorded storage address.\<close>

definition get_source_bytes :: "s3_store \<Rightarrow> file_row \<Rightarrow> exn + bytes" where
  "get_source_bytes s3 f =
     (case split_s3_uri (f_storage_uri f) of
        Inl e \<Rightarrow> Inl e
      | Inr (bucket, key) \<Rightarrow> s3 bucket key)"

text \<open>
  \<open>run_task\<close>.  The environment gives the object store as it is in a world state, and
  \<open>now1\<close>, \<open>now2\<close> are the values of the first and the second \<open>datetime.utcnow()\<close> call
  of this delivery.  The result is the task's outcome (\<open>Inr ()\<close> for a normal return,
  \<open>Inl e\<close> for the exception that leaves the task), the database and the world.
\<close>

definition run_task ::
  "('w \<Rightarrow> s3_store) \<Rightarrow> 'w task_manager \<Rightarrow> string \<Rightarrow> datetime \<Rightarrow> datetime \<Rightarrow>
     database \<times> 'w \<Rightarrow> (exn + unit) \<times> database \<times> 'w" where
  "run_task get_object manager task_run_id now1 now2 st =
     (case st of (db, w) \<Rightarrow>
      case get_task_run db task_run_id of
        None \<Rightarrow> (Inr (), db, w)
      | Some tr \<Rightarrow>
         (case get_file db (tr_file_id tr) of
            None \<Rightarrow> (Inr (), fst (mark db tr ''FAILED'' (Some ''file not found'') now1), w)
          | Some f \<Rightarrow>
             (case mark db tr ''RUNNING'' None now1 of (db1, tr1) \<Rightarrow>
              case get_source_bytes (get_object w) f of
                Inl e \<Rightarrow> (Inl e, fst (mark db1 tr1 ''FAILED'' (Some (str_exn e)) now2), w)
              | Inr data \<Rightarrow>
                 (case manager_run manager tr1 f data w of
                    (Inl e, w') \<Rightarrow>
                      (Inl e, fst (mark db1 tr1 ''FAILED'' (Some (str_exn e)) now2), w')
                  | (Inr u, w') \<Rightarrow>
                      (Inr (), fst (mark db1 tr1 ''SUCCEEDED'' None now2), w')))))"

text \<open>A sequence of trigger deliveries, each with its run id and its two clock readings.\<close>

fun run_tasks ::
  "('w \<Rightarrow> s3_store) \<Rightarrow> 'w task_manager \<Rightarrow> (string \<times> datetime \<times> datetime) list \<Rightarrow>
     database \<times> 'w \<Rightarrow> database \<times> 'w" where
  "run_tasks get_object manager [] st = st"
| "run_tasks get_object manager ((k, now1, now2) # ds) st =
     run_tasks get_object manager ds (snd (run_task get_object manager k now1 now2 st))"


section \<open>app.py: source resolution with fallbacks\<close>

record S3Config =
  endpoint_url :: string
  region :: string
  access_key :: string
  secret_key :: string
  bucket :: string

text \<open>
  \<open>_try_get_object_bytes\<close>: a \<open>ClientError\<close> whose code is \<open>NoSuchKey\<close> or
  \<open>NoSuchBucket\<close> gives \<open>None\<close>; every other exception is raised again.
\<close>

definition try_get_object_bytes :: "s3_store \<Rightarrow> string \<Rightarrow> string \<Rightarrow> exn + bytes option" where
  "try_get_object_bytes s3 bkt key =
     (case s3 bkt key of
        Inr data \<Rightarrow> Inr (Some data)
      | Inl (ClientError code text) \<Rightarrow>
          (if code \<in> set [''NoSuchKey'', ''NoSuchBucket''] then Inr None
           else Inl (ClientError code text))
      | Inl e \<Rightarrow> Inl e)"

text \<open>
  The \<open>detail\<close> of the 404 response: the message, the attempted
  \<open>(bucket, key, from)\<close> triples in the order of the attempts, and the hint (a fixed
  text, here as its UTF-8 bytes).
\<close>

record detail =
  d_message :: string
  d_tried :: "(string \<times> string \<times> string) list"
  d_hint :: string

definition resolve_hint :: string where
  "resolve_hint =
     [CHR 0xE7, CHR 0xA2, CHR 0xBA, CHR 0xE8, CHR 0xAA, CHR 0x8D, CHR 0x20, CHR 0x66,
      CHR 0x69, CHR 0x6C, CHR 0x65, CHR 0x2E, CHR 0x73, CHR 0x74, CHR 0x6F, CHR 0x72,
      CHR 0x61, CHR 0x67, CHR 0x65, CHR 0x5F, CHR 0x75, CHR 0x72, CHR 0x69, CHR 0xE3,
      CHR 0x80, CHR 0x81, CHR 0x75, CHR 0x73, CHR 0x65, CHR 0x72, CHR 0x5F, CHR 0x69,
      CHR 0x64, CHR 0xE3, CHR 0x80, CHR 0x81, CHR 0xE5, CHR 0xAF, CHR 0xA6, CHR 0xE9,
      CHR 0x9A, CHR 0x9B, CHR 0x20, CHR 0x53, CHR 0x33, CHR 0x20, CHR 0xE7, CHR 0x9B,
      CHR 0xAE, CHR 0xE9, CHR 0x8C, CHR 0x84, CHR 0xE4, CHR 0xB8, CHR 0x80, CHR 0xE8,
      CHR 0x87, CHR 0xB4, CHR 0xEF, CHR 0xBC, CHR 0x9B, CHR 0xE6, CHR 0x88, CHR 0x96,
      CHR 0xE6, CHR 0xAA, CHR 0xA2, CHR 0xE6, CHR 0x9F, CHR 0xA5, CHR 0xE6, CHR 0xAA,
      CHR 0x94, CHR 0xE5, CHR 0x90, CHR 0x8D, CHR 0xE6, CHR 0x98, CHR 0xAF, CHR 0xE5,
      CHR 0x90, CHR 0xA6, CHR 0xE5, CHR 0x90, CHR 0xAB, CHR 0xE7, CHR 0x89, CHR 0xB9,
      CHR 0xE6, CHR 0xAE, CHR 0x8A, CHR 0xE5, CHR 0xAD, CHR 0x97, CHR 0xE5, CHR 0x85,
      CHR 0x83, CHR 0x2F, CHR 0xE7, CHR 0xA9, CHR 0xBA, CHR 0xE7, CHR 0x99, CHR 0xBD]"

text \<open>
  What leaves \<open>_resolve_source_bytes_or_404\<close> when it does not return: the
  \<open>HTTPException\<close> it raises itself, or an exception of a fetch that it does not catch.
\<close>

datatype app_error = HTTPException nat detail | Raised exn

definition resolve_source_bytes_or_404 :: "S3Config \<Rightarrow> s3_store \<Rightarrow> file_row \<Rightarrow> app_error + bytes" where
  "resolve_source_bytes_or_404 cfg s3 f =
     (let step1 =
            (case split_s3_uri (f_storage_uri f) of
               Inl e \<Rightarrow> ([], None)
             | Inr (bkt, key) \<Rightarrow>
                 ([(bkt, key, ''db.storage_uri'')],
                  (case try_get_object_bytes s3 bkt key of
                     Inr (Some data) \<Rightarrow> Some data
                   | Inr None \<Rightarrow> None
                   | Inl e \<Rightarrow> None)))
      in case step1 of
        (tried1, Some data) \<Rightarrow> Inr data
      | (tried1, None) \<Rightarrow>
         (let new_key = f_owner_id f @ ''/source_files/'' @ f_id f @ ''/'' @ f_user_filename f;
              tried2 = tried1 @ [(bucket cfg, new_key, ''new_rule'')]
          in case try_get_object_bytes s3 (bucket cfg) new_key of
               Inl e \<Rightarrow> Inl (Raised e)
             | Inr (Some data) \<Rightarrow> Inr data
             | Inr None \<Rightarrow>
                (let old_key = ''uploads/'' @ f_id f @ ''/'' @ f_user_filename f;
                     tried3 = tried2 @ [(bucket cfg, old_key, ''old_rule'')]
                 in case try_get_object_bytes s3 (bucket cfg) old_key of
                      Inl e \<Rightarrow> Inl (Raised e)
                    | Inr (Some data) \<Rightarrow> Inr data
                    | Inr None \<Rightarrow>
                        Inl (HTTPException 404
                               \<lparr>d_message = ''source object not found in S3'',
                                d_tried = tried3,
                                d_hint = resolve_hint\<rparr>))))"

section \<open>Python numbers: \<open>float\<close> as IEEE 754 binary64\<close>

text \<open>
  A finite \<open>float\<close> is the rational number it denotes.  \<open>binary64 q\<close> is the double
  nearest to \<open>q\<close>, ties to the even significand: a significand of 53 bits, so
  \<open>q\<close> is scaled by the power of two \<open>e\<close> that brings it into \<open>[2^52, 2^53)\<close>, rounded
  to an integer there and scaled back.  The exponent range of a double (overflow above
  \<open>2^1024\<close>, subnormal numbers below \<open>2^-1022\<close>) is not modelled; the quotients and
  products of pixel counts computed below are far inside it.
\<close>

definition floor_log2 :: "rat \<Rightarrow> int" where
  "floor_log2 q =
     (case quotient_of q of (a, b) \<Rightarrow>
        let k = bitlen a - bitlen b in if power_int 2 k \<le> q then k else k - 1)"

definition round_half_even :: "rat \<Rightarrow> int" where
  "round_half_even y =
     (let f = \<lfloor>y\<rfloor>; d = y - of_int f in
      if d < 1 / 2 then f else if 1 / 2 < d then f + 1 else if even f then f else f + 1)"

definition binary64 :: "rat \<Rightarrow> rat" where
  "binary64 q =
     (if q = 0 then 0
      else let e = floor_log2 \<bar>q\<bar> - 52 in
        of_int (round_half_even (q / power_int 2 e)) * power_int 2 e)"

text \<open>\<open>float(n)\<close> of an \<open>int\<close>, \<open>x / y\<close> and \<open>x * y\<close> on floats, and \<open>int(x)\<close>.\<close>

definition float_of_int :: "int \<Rightarrow> rat" where
  "float_of_int n = binary64 (of_int n)"

definition float_truediv :: "rat \<Rightarrow> rat \<Rightarrow> exn + rat" where
  "float_truediv x y =
     (if y = 0 then Inl (OtherException ''ZeroDivisionError'' ''float division by zero'')
      else Inr (binary64 (x / y)))"

definition float_mul :: "rat \<Rightarrow> rat \<Rightarrow> rat" where
  "float_mul x y = binary64 (x * y)"

definition py_int :: "rat \<Rightarrow> int" where
  "py_int x = (if 0 \<le> x then \<lfloor>x\<rfloor> else \<lceil>x\<rceil>)"

section \<open>loader.py: small tools\<close>

definition upper_char :: "char \<Rightarrow> char" where
  "upper_char c =
     (case map_of (zip ''abcdefghijklmnopqrstuvwxyz'' ''ABCDEFGHIJKLMNOPQRSTUVWXYZ'') c of
        Some d \<Rightarrow> d
      | None \<Rightarrow> c)"

definition upper :: "string \<Rightarrow> string" where
  "upper s = map upper_char s"

text \<open>
  \<open>os.path.splitext\<close> (POSIX): the extension starts at the last dot of the last path
  component, unless only dots come before it in that component.
\<close>

definition splitext :: "string \<Rightarrow> string \<times> string" where
  "splitext p =
     (let name = rev (takeWhile (\<lambda>c. c \<noteq> CHR ''/'') (rev p));
          ext = rev (takeWhile (\<lambda>c. c \<noteq> CHR ''.'') (rev name))
      in if CHR ''.'' \<in> set name \<and>
            (\<exists>c \<in> set (take (length name - length ext - 1) name). c \<noteq> CHR ''.'')
         then (take (length p - length ext - 1) p, CHR ''.'' # ext)
         else (p, []))"

definition ext_lower :: "string \<Rightarrow> string" where
  "ext_lower path = lower (snd (splitext path))"

text \<open>\<open>os.path.join\<close> of two parts (POSIX).\<close>

definition path_join :: "string \<Rightarrow> string \<Rightarrow> string" where
  "path_join a b =
     (if prefix ''/'' b then b
      else if a = [] \<or> last a = CHR ''/'' then a @ b
      else a @ ''/'' @ b)"

text \<open>The format \<open>{i:04d}\<close> of a page number.\<close>

fun digits10 :: "nat \<Rightarrow> string" where
  "digits10 n =
     (if n < 10 then [''0123456789'' ! n]
      else digits10 (n div 10) @ [''0123456789'' ! (n mod 10)])"

definition format_04d :: "nat \<Rightarrow> string" where
  "format_04d i = replicate (4 - length (digits10 i)) (CHR ''0'') @ digits10 i"

definition py_str_opt :: "string option \<Rightarrow> string" where
  "py_str_opt x = (case x of None \<Rightarrow> ''None'' | Some s \<Rightarrow> s)"

section \<open>loader.py: documents, images and the libraries around them\<close>

text \<open>
  A document is a path or a bytes-like object (\<open>_read_all\<close> turns each of the bytes-like
  types into \<open>bytes\<close>).
\<close>

datatype DocInput = Path string | Bytes bytes

text \<open>A Pillow image: its size \<open>(width, height)\<close>, its mode and its samples.\<close>

record image =
  im_size :: "int \<times> int"
  im_mode :: string
  im_data :: bytes

text \<open>
  A file handed to a library or an external tool: its path, and its content when this
  call of \<open>load\<close> has written it.  A PDF is opened from a stream or from such a file.
\<close>

type_synonym file_ref = "string \<times> bytes option"

datatype pdf_input = PdfStream bytes | PdfPath file_ref

text \<open>A page of a PDF under construction: width and height in points, and the embedded PNG.\<close>

type_synonym pdf_page = "rat \<times> rat \<times> bytes"

type_synonym rgba = "int \<times> int \<times> int \<times> int"

text \<open>
  What \<open>load\<close> calls and does not define: Magika, \<open>mimetypes\<close>, the file system,
  LibreOffice and the HTML renderer (through \<open>_libreoffice_to_pdf\<close> and
  \<open>_html_to_pdf\<close>), PyMuPDF, Pillow and \<open>zipfile\<close>.  A call that can raise returns a
  sum; the classifiers return \<open>None\<close> when they raise, since every exception of theirs
  is caught.
\<close>

record loader_env =
  magika_identify_path :: "string \<Rightarrow> string option"
  magika_identify_bytes :: "bytes \<Rightarrow> string option"
  mimetypes_guess_type :: "string \<Rightarrow> string option"
  abspath :: "string \<Rightarrow> string"
  getcwd :: string
  tmp_work :: string
  read_file :: "string \<Rightarrow> exn + bytes"
  os_makedirs :: "string \<Rightarrow> exn + unit"
  libreoffice_to_pdf :: "file_ref \<Rightarrow> string \<Rightarrow> exn + (string \<times> bytes)"
  html_to_pdf :: "file_ref \<Rightarrow> string \<Rightarrow> exn + bytes"
  fitz_page_count :: "pdf_input \<Rightarrow> exn + nat"
  fitz_get_pixmap :: "pdf_input \<Rightarrow> nat \<Rightarrow> int \<Rightarrow> exn + image"
  fitz_tobytes :: "pdf_page list \<Rightarrow> exn + bytes"
  pil_open_rgba :: "file_ref \<Rightarrow> exn + image"
  pil_composite :: "image \<Rightarrow> rgba \<Rightarrow> image"
  pil_resize :: "image \<Rightarrow> int \<times> int \<Rightarrow> exn + image"
  pil_convert_rgb :: "image \<Rightarrow> image"
  pil_encode :: "image \<Rightarrow> string \<Rightarrow> exn + bytes"
  pil_save_file :: "image \<Rightarrow> string \<Rightarrow> string \<Rightarrow> exn + unit"
  zip_archive :: "(string \<times> bytes) list \<Rightarrow> bytes"

section \<open>loader.py: type detection\<close>

definition detect_type :: "loader_env \<Rightarrow> DocInput \<Rightarrow> string \<times> string option \<times> string" where
  "detect_type env doc =
     (case doc of
        Path path \<Rightarrow>
          (case magika_identify_path env path of
             Some label \<Rightarrow> (label, Some path, ''magika'')
           | None \<Rightarrow>
               ((case mimetypes_guess_type env path of
                   None \<Rightarrow> ''application/octet-stream''
                 | Some mime \<Rightarrow> if mime = [] then ''application/octet-stream'' else mime),
                Some path, ''mimetypes''))
      | Bytes data \<Rightarrow>
          (case magika_identify_bytes env data of
             Some label \<Rightarrow> (label, None, ''magika'')
           | None \<Rightarrow>
               if take 4 data = ''%PDF'' then (''application/pdf'', None, ''sniff'')
               else if prefix [CHR 0x89, CHR ''P'', CHR ''N'', CHR ''G''] (take 8 data)
                 then (''image/png'', None, ''sniff'')
               else if take 3 data = [CHR 0xFF, CHR 0xD8, CHR 0xFF]
                 then (''image/jpeg'', None, ''sniff'')
               else if take 4 data \<in> set [[CHR ''I'', CHR ''I'', CHR ''*'', CHR 0x00],
                                           [CHR ''M'', CHR ''M'', CHR 0x00, CHR ''*'']]
                 then (''image/tiff'', None, ''sniff'')
               else if take 12 data = ''RIFF'' \<and> take (12 - 8) (drop 8 data) = ''WEBP''
                 then (''image/webp'', None, ''sniff'')
               else (''application/octet-stream'', None, ''sniff'')))"

section \<open>loader.py: rasterising a PDF\<close>

text \<open>
  The \<open>max_side\<close> step of \<open>_open_pdf_as_images\<close>: \<open>r = max_side / float(m)\<close> and
  \<open>im.resize((int(w * r), int(h * r)), LANCZOS)\<close> when the longer side exceeds
  \<open>max_side\<close>.
\<close>

definition open_pdf_max_side :: "loader_env \<Rightarrow> int option \<Rightarrow> image \<Rightarrow> exn + image" where
  "open_pdf_max_side env max_side im =
     (case max_side of
        None \<Rightarrow> Inr im
      | Some ms \<Rightarrow>
          (case im_size im of (w, h) \<Rightarrow>
             let m = max w h in
             if m > ms then
               (case float_truediv (float_of_int ms) (float_of_int m) of
                  Inl e \<Rightarrow> Inl e
                | Inr r \<Rightarrow>
                    pil_resize env im
                      (py_int (float_mul (float_of_int w) r),
                       py_int (float_mul (float_of_int h) r)))
             else Inr im))"

text \<open>One turn of the loop over the pages: render, flatten on a background, scale.\<close>

definition open_pdf_page ::
  "loader_env \<Rightarrow> pdf_input \<Rightarrow> int \<Rightarrow> int option \<Rightarrow> rgba option \<Rightarrow> nat \<Rightarrow> exn + image" where
  "open_pdf_page env pdf dpi max_side bg i =
     (case fitz_get_pixmap env pdf i dpi of
        Inl e \<Rightarrow> Inl e
      | Inr im \<Rightarrow>
          open_pdf_max_side env max_side
            (case bg of
               None \<Rightarrow> im
             | Some c \<Rightarrow> if im_mode im = ''RGBA'' then pil_composite env im c else im))"

fun open_pdf_pages ::
  "loader_env \<Rightarrow> pdf_input \<Rightarrow> int \<Rightarrow> int option \<Rightarrow> rgba option \<Rightarrow> nat list \<Rightarrow>
     exn + image list" where
  "open_pdf_pages env pdf dpi max_side bg [] = Inr []"
| "open_pdf_pages env pdf dpi max_side bg (i # pages) =
     (case open_pdf_page env pdf dpi max_side bg i of
        Inl e \<Rightarrow> Inl e
      | Inr im \<Rightarrow>
          (case open_pdf_pages env pdf dpi max_side bg pages of
             Inl e \<Rightarrow> Inl e
           | Inr images \<Rightarrow> Inr (im # images)))"

definition open_pdf_as_images ::
  "loader_env \<Rightarrow> pdf_input \<Rightarrow> int \<Rightarrow> int option \<Rightarrow> rgba option \<Rightarrow> exn + image list" where
  "open_pdf_as_images env pdf dpi max_side bg =
     (case fitz_page_count env pdf of
        Inl e \<Rightarrow> Inl e
      | Inr n \<Rightarrow> open_pdf_pages env pdf dpi max_side bg [0..<n])"

section \<open>loader.py: the options and the output helpers\<close>

record LoadOptions =
  dpi :: int
  max_side :: "int option"
  background_rgba :: "rgba option"
  save :: bool
  output_dir :: "string option"
  filename_prefix :: string
  image_format :: string
  return_mode :: string
  zip_name_in_zip :: "string option"

definition LoadOptions_default :: LoadOptions where
  "LoadOptions_default =
     \<lparr>dpi = 200, max_side = None, background_rgba = None, save = False, output_dir = None,
      filename_prefix = ''page'', image_format = ''PNG'', return_mode = ''PIL'',
      zip_name_in_zip = None\<rparr>"

text \<open>\<open>im.convert("RGB") if fmt.upper() in ("JPG", "JPEG") and im.mode != "RGB" else im\<close>.\<close>

definition to_save :: "loader_env \<Rightarrow> string \<Rightarrow> image \<Rightarrow> image" where
  "to_save env fmt im =
     (if upper fmt \<in> set [''JPG'', ''JPEG''] \<and> im_mode im \<noteq> ''RGB''
      then pil_convert_rgb env im else im)"

fun images_to_bytes :: "loader_env \<Rightarrow> image list \<Rightarrow> string \<Rightarrow> exn + bytes list" where
  "images_to_bytes env [] fmt = Inr []"
| "images_to_bytes env (im # images) fmt =
     (case pil_encode env (to_save env fmt im) (upper fmt) of
        Inl e \<Rightarrow> Inl e
      | Inr b \<Rightarrow>
          (case images_to_bytes env images fmt of
             Inl e \<Rightarrow> Inl e
           | Inr out \<Rightarrow> Inr (b # out)))"

text \<open>The entries of the archive, numbered from \<open>i\<close> on.\<close>

definition zip_entry_name :: "string \<Rightarrow> string \<Rightarrow> string option \<Rightarrow> nat \<Rightarrow> string" where
  "zip_entry_name fmt fprefix name_hint i =
     (case name_hint of
        None \<Rightarrow> fprefix @ ''_'' @ format_04d i @ ''.'' @ lower fmt
      | Some hint \<Rightarrow>
          if hint = [] then fprefix @ ''_'' @ format_04d i @ ''.'' @ lower fmt
          else (case splitext hint of (stem, ext) \<Rightarrow>
                  stem @ ''_'' @ format_04d i @ (if ext \<noteq> [] then ext else ''.'' @ lower fmt)))"

fun zip_entries ::
  "loader_env \<Rightarrow> string \<Rightarrow> string \<Rightarrow> string option \<Rightarrow> nat \<Rightarrow> image list \<Rightarrow>
     exn + (string \<times> bytes) list" where
  "zip_entries env fmt fprefix name_hint i [] = Inr []"
| "zip_entries env fmt fprefix name_hint i (im # images) =
     (case pil_encode env (to_save env fmt im) (upper fmt) of
        Inl e \<Rightarrow> Inl e
      | Inr b \<Rightarrow>
          (case zip_entries env fmt fprefix name_hint (Suc i) images of
             Inl e \<Rightarrow> Inl e
           | Inr entries \<Rightarrow> Inr ((zip_entry_name fmt fprefix name_hint i, b) # entries)))"

definition images_to_zip_bytes ::
  "loader_env \<Rightarrow> image list \<Rightarrow> string \<Rightarrow> string \<Rightarrow> string option \<Rightarrow> exn + bytes" where
  "images_to_zip_bytes env images fmt fprefix name_hint =
     (case zip_entries env fmt fprefix name_hint 1 images of
        Inl e \<Rightarrow> Inl e
      | Inr entries \<Rightarrow> Inr (zip_archive env entries))"

text \<open>
  The pages of the synthesized PDF: \<open>points = pixels / float(dpi) * 72.0\<close>, the image
  saved as PNG.
\<close>

fun pdf_pages :: "loader_env \<Rightarrow> int \<Rightarrow> image list \<Rightarrow> exn + pdf_page list" where
  "pdf_pages env dpi' [] = Inr []"
| "pdf_pages env dpi' (im # images) =
     (let im1 = (if im_mode im \<notin> set [''RGB'', ''L''] then pil_convert_rgb env im else im) in
      case im_size im1 of (w_px, h_px) \<Rightarrow>
      case float_truediv (float_of_int w_px) (float_of_int dpi') of
        Inl e \<Rightarrow> Inl e
      | Inr wq \<Rightarrow>
      case float_truediv (float_of_int h_px) (float_of_int dpi') of
        Inl e \<Rightarrow> Inl e
      | Inr hq \<Rightarrow>
      case pil_encode env im1 ''PNG'' of
        Inl e \<Rightarrow> Inl e
      | Inr png \<Rightarrow>
          (case pdf_pages env dpi' images of
             Inl e \<Rightarrow> Inl e
           | Inr pages \<Rightarrow> Inr ((float_mul wq 72, float_mul hq 72, png) # pages)))"

definition images_to_pdf_bytes :: "loader_env \<Rightarrow> image list \<Rightarrow> int \<Rightarrow> exn + bytes" where
  "images_to_pdf_bytes env images dpi' =
     (case pdf_pages env dpi' images of
        Inl e \<Rightarrow> Inl e
      | Inr pages \<Rightarrow> fitz_tobytes env pages)"

text \<open>Writing the pages as files \<open>{prefix}_{i:04d}.{fmt}\<close> under a directory.\<close>

fun save_images ::
  "loader_env \<Rightarrow> string \<Rightarrow> string \<Rightarrow> string \<Rightarrow> nat \<Rightarrow> image list \<Rightarrow> exn + string list" where
  "save_images env out_dir fprefix fmt i [] = Inr []"
| "save_images env out_dir fprefix fmt i (im # images) =
     (let fp = path_join out_dir (fprefix @ ''_'' @ format_04d i @ ''.'' @ lower fmt) in
      case pil_save_file env (to_save env fmt im) fp (upper fmt) of
        Inl e \<Rightarrow> Inl e
      | Inr u \<Rightarrow>
          (case save_images env out_dir fprefix fmt (Suc i) images of
             Inl e \<Rightarrow> Inl e
           | Inr paths \<Rightarrow> Inr (fp # paths)))"

text \<open>\<open>options.output_dir or os.path.join(os.getcwd(), "doc_images")\<close>.\<close>

definition options_out_dir :: "loader_env \<Rightarrow> LoadOptions \<Rightarrow> string" where
  "options_out_dir env options =
     (case output_dir options of
        None \<Rightarrow> path_join (getcwd env) ''doc_images''
      | Some d \<Rightarrow> if d = [] then path_join (getcwd env) ''doc_images'' else d)"

text \<open>
  The saving block of \<open>load\<close>, which the source has twice (for \<open>save\<close> and for the
  return mode \<open>PATHS\<close>): the directory is made, then each page is written.
\<close>

definition save_to_dir :: "loader_env \<Rightarrow> LoadOptions \<Rightarrow> image list \<Rightarrow> exn + string list" where
  "save_to_dir env options images =
     (let out_dir = options_out_dir env options
      in case os_makedirs env out_dir of
           Inl e \<Rightarrow> Inl e
         | Inr u \<Rightarrow>
             save_images env out_dir (filename_prefix options) (image_format options) 1 images)"

section \<open>loader.py: \<open>DocumentToImagesLoader.load\<close>\<close>

definition OFFICE_LABELS :: "string list" where
  "OFFICE_LABELS =
     [''doc'', ''docx'', ''ppt'', ''pptx'', ''xls'', ''xlsx'', ''odt'', ''odp'', ''ods'', ''rtf'']"

definition IMAGE_LABELS :: "string list" where
  "IMAGE_LABELS = [''png'', ''jpeg'', ''jpg'', ''webp'', ''tiff'', ''bmp'']"

definition HTML_LABELS :: "string list" where
  "HTML_LABELS = [''html'', ''htm'']"

definition OFFICE_MIMES :: "string list" where
  "OFFICE_MIMES =
     [''application/msword'',
      ''application/vnd.openxmlformats-officedocument.wordprocessingml.document'',
      ''application/vnd.ms-powerpoint'',
      ''application/vnd.openxmlformats-officedocument.presentationml.presentation'',
      ''application/vnd.ms-excel'',
      ''application/vnd.openxmlformats-officedocument.spreadsheetml.sheet'',
      ''application/rtf'',
      ''application/vnd.oasis.opendocument.text'',
      ''application/vnd.oasis.opendocument.presentation'',
      ''application/vnd.oasis.opendocument.spreadsheet'']"

definition IMAGE_EXTS :: "string list" where
  "IMAGE_EXTS = [''.png'', ''.jpg'', ''.jpeg'', ''.tiff'', ''.tif'', ''.webp'', ''.bmp'']"

definition HTML_EXTS :: "string list" where
  "HTML_EXTS = [''.html'', ''.htm'']"

text \<open>The four shapes of a result: \<open>PIL\<close>; \<open>BYTES\<close>; \<open>PATHS\<close>; \<open>ZIP_BYTES\<close> or \<open>PDF_BYTES\<close>.\<close>

datatype load_result =
    Images "image list"
  | Encoded "bytes list"
  | Saved "string list"
  | Blob bytes

text \<open>
  What \<open>load\<close> knows of the document before it routes it: the bytes when the input
  was bytes, the path of the source file, and the three signals (Magika label, MIME
  type, lower-case extension).
\<close>

record routed =
  data_bytes :: "bytes option"
  src_path :: string
  label :: "string option"
  mime :: "string option"
  ext :: "string option"
  src :: string

definition guessed_suffix :: "string option \<Rightarrow> string" where
  "guessed_suffix mime' =
     (case map_of [(''application/pdf'', ''.pdf''), (''text/html'', ''.html''),
                   (''image/png'', ''.png''), (''image/jpeg'', ''.jpg''),
                   (''image/tiff'', ''.tiff''), (''image/webp'', ''.webp'')]
                  (case mime' of None \<Rightarrow> [] | Some m \<Rightarrow> m) of
        None \<Rightarrow> ''.bin''
      | Some s \<Rightarrow> s)"

definition load_prepare :: "loader_env \<Rightarrow> DocInput \<Rightarrow> routed" where
  "load_prepare env doc =
     (case detect_type env doc of (label_or_mime, path, src') \<Rightarrow>
      let ext0 = (case path of
                    None \<Rightarrow> None
                  | Some p \<Rightarrow> if p = [] then None else Some (ext_lower p));
          label' = (if src' = ''magika'' then Some label_or_mime else None);
          mime' = (if src' = ''magika'' then None else Some label_or_mime)
      in case doc of
           Path p \<Rightarrow>
             \<lparr>data_bytes = None, src_path = abspath env p, label = label', mime = mime',
              ext = ext0, src = src'\<rparr>
         | Bytes data \<Rightarrow>
             (let sp = path_join (tmp_work env) (''input'' @ guessed_suffix mime')
              in \<lparr>data_bytes = Some data, src_path = sp, label = label', mime = mime',
                  ext = (if ext0 = None \<or> ext0 = Some [] then Some (ext_lower sp) else ext0),
                  src = src'\<rparr>))"

definition is_pdf :: "routed \<Rightarrow> bool" where
  "is_pdf r \<longleftrightarrow>
     label r = Some ''pdf'' \<or> mime r = Some ''application/pdf'' \<or> ext r = Some ''.pdf''"

definition is_office :: "routed \<Rightarrow> bool" where
  "is_office r \<longleftrightarrow>
     (case label r of None \<Rightarrow> False | Some l \<Rightarrow> l \<in> set OFFICE_LABELS) \<or>
     (case mime r of None \<Rightarrow> False | Some m \<Rightarrow> m \<in> set OFFICE_MIMES)"

definition is_html :: "routed \<Rightarrow> bool" where
  "is_html r \<longleftrightarrow>
     (case label r of None \<Rightarrow> False | Some l \<Rightarrow> l \<in> set HTML_LABELS) \<or>
     mime r = Some ''text/html'' \<or>
     (case ext r of None \<Rightarrow> False | Some x \<Rightarrow> x \<noteq> [] \<and> x \<in> set HTML_EXTS)"

definition is_image :: "routed \<Rightarrow> bool" where
  "is_image r \<longleftrightarrow>
     (case label r of None \<Rightarrow> False | Some l \<Rightarrow> l \<in> set IMAGE_LABELS) \<or>
     (case mime r of None \<Rightarrow> False | Some m \<Rightarrow> m \<noteq> [] \<and> prefix ''image/'' m) \<or>
     (case ext r of None \<Rightarrow> False | Some x \<Rightarrow> x \<noteq> [] \<and> x \<in> set IMAGE_EXTS)"

text \<open>
  The \<open>max_side\<close> step of the single-image branch of \<open>load\<close>, as it is written there.
\<close>

definition load_image_max_side :: "loader_env \<Rightarrow> int option \<Rightarrow> image \<Rightarrow> exn + image" where
  "load_image_max_side env max_side' im =
     (case max_side' of
        None \<Rightarrow> Inr im
      | Some ms \<Rightarrow>
          (case im_size im of (w, h) \<Rightarrow>
             let m = max w h in
             if m > ms then
               (case float_truediv (float_of_int ms) (float_of_int m) of
                  Inl e \<Rightarrow> Inl e
                | Inr r \<Rightarrow>
                    pil_resize env im
                      (py_int (float_mul (float_of_int w) r),
                       py_int (float_mul (float_of_int h) r)))
             else Inr im))"

text \<open>The branch that returns PDF bytes without rasterising; \<open>None\<close> when it falls through.\<close>

definition load_pdf_direct :: "loader_env \<Rightarrow> routed \<Rightarrow> (exn + load_result) option" where
  "load_pdf_direct env r =
     (if is_pdf r then
        (case data_bytes r of
           Some data \<Rightarrow> Some (Inr (Blob data))
         | None \<Rightarrow>
             Some (case read_file env (src_path r) of
                     Inl e \<Rightarrow> Inl e
                   | Inr b \<Rightarrow> Inr (Blob b)))
      else if is_office r then
        Some (case libreoffice_to_pdf env (src_path r, data_bytes r) (tmp_work env) of
                Inl e \<Rightarrow> Inl e
              | Inr (pdf_path, pdf) \<Rightarrow> Inr (Blob pdf))
      else if is_html r then
        Some (case html_to_pdf env (src_path r, data_bytes r)
                     (path_join (tmp_work env) ''from_html.pdf'') of
                Inl e \<Rightarrow> Inl e
              | Inr pdf \<Rightarrow> Inr (Blob pdf))
      else None)"

text \<open>The branches that produce the page images.\<close>

definition load_images :: "loader_env \<Rightarrow> LoadOptions \<Rightarrow> routed \<Rightarrow> exn + image list" where
  "load_images env options r =
     (if is_pdf r then
        open_pdf_as_images env
          (case data_bytes r of
             None \<Rightarrow> PdfPath (src_path r, None)
           | Some data \<Rightarrow>
               if data \<noteq> [] \<and> take 4 data = ''%PDF'' then PdfStream data
               else PdfPath (src_path r, Some data))
          (dpi options) (max_side options) (background_rgba options)
      else if is_office r then
        (case libreoffice_to_pdf env (src_path r, data_bytes r) (tmp_work env) of
           Inl e \<Rightarrow> Inl e
         | Inr (pdf_path, pdf) \<Rightarrow>
             open_pdf_as_images env (PdfPath (pdf_path, Some pdf))
               (dpi options) (max_side options) (background_rgba options))
      else if is_html r then
        (case html_to_pdf env (src_path r, data_bytes r)
                (path_join (tmp_work env) ''from_html.pdf'') of
           Inl e \<Rightarrow> Inl e
         | Inr pdf \<Rightarrow>
             open_pdf_as_images env
               (PdfPath (path_join (tmp_work env) ''from_html.pdf'', Some pdf))
               (dpi options) (max_side options) (background_rgba options))
      else if is_image r then
        (case pil_open_rgba env (src_path r, data_bytes r) of
           Inl e \<Rightarrow> Inl e
         | Inr im \<Rightarrow>
             (case load_image_max_side env (max_side options)
                     (case background_rgba options of
                        None \<Rightarrow> im
                      | Some c \<Rightarrow> pil_composite env im c) of
                Inl e \<Rightarrow> Inl e
              | Inr im' \<Rightarrow> Inr [im']))
      else if ext r \<noteq> None \<and> ext r \<noteq> Some [] \<and> ext r \<noteq> Some ''.bin'' then
        (case libreoffice_to_pdf env (src_path r, data_bytes r) (tmp_work env) of
           Inl e \<Rightarrow> Inl e
         | Inr (pdf_path, pdf) \<Rightarrow>
             open_pdf_as_images env (PdfPath (pdf_path, Some pdf))
               (dpi options) (max_side options) (background_rgba options))
      else
        Inl (ValueError (''Unsupported or unknown document type: label='' @ py_str_opt (label r)
               @ '' mime='' @ py_str_opt (mime r) @ '' ext='' @ py_str_opt (ext r)
               @ '' src='' @ src r)))"

text \<open>
  The end of \<open>load\<close>: the optional saving, then the result in the requested return
  mode, from the page images.
\<close>

definition load_return :: "loader_env \<Rightarrow> LoadOptions \<Rightarrow> image list \<Rightarrow> exn + load_result" where
  "load_return env options images =
     (case (if save options then save_to_dir env options images else Inr []) of
        Inl e \<Rightarrow> Inl e
      | Inr saved_paths \<Rightarrow>
          if return_mode options = ''PIL'' then Inr (Images images)
          else if return_mode options = ''BYTES'' then
            (case images_to_bytes env images (image_format options) of
               Inl e \<Rightarrow> Inl e
             | Inr out \<Rightarrow> Inr (Encoded out))
          else if return_mode options = ''PATHS'' then
            (if saved_paths = [] then
               (case save_to_dir env options images of
                  Inl e \<Rightarrow> Inl e
                | Inr paths \<Rightarrow> Inr (Saved paths))
             else Inr (Saved saved_paths))
          else if return_mode options = ''ZIP_BYTES'' then
            (case images_to_zip_bytes env images (image_format options)
                    (filename_prefix options) (zip_name_in_zip options) of
               Inl e \<Rightarrow> Inl e
             | Inr b \<Rightarrow> Inr (Blob b))
          else if return_mode options = ''PDF_BYTES'' then
            (case images_to_pdf_bytes env images (dpi options) of
               Inl e \<Rightarrow> Inl e
             | Inr b \<Rightarrow> Inr (Blob b))
          else Inl (ValueError (''Unknown return_mode: '' @ return_mode options)))"

definition load :: "loader_env \<Rightarrow> DocInput \<Rightarrow> LoadOptions \<Rightarrow> exn + load_result" where
  "load env doc options =
     (let r = load_prepare env doc in
      case (if return_mode options = ''PDF_BYTES'' then load_pdf_direct env r else None) of
        Some result \<Rightarrow> result
      | None \<Rightarrow>
          (case load_images env options r of
             Inl e \<Rightarrow> Inl e
           | Inr images \<Rightarrow> load_return env options images))"

section \<open>Example data\<close>

definition ex_file :: file_row where
  "ex_file = \<lparr>f_id = ''f1'', f_owner_id = ''u1'', f_user_filename = ''a.pdf'',
     f_mime_type = None, f_byte_size = None, f_sha256 = [],
     f_storage_uri = ''s3://bkt/u1/source_files/f1/a.pdf'', f_status = ''READY''\<rparr>"

definition ex_run :: task_run where
  "ex_run = \<lparr>tr_id = ''r1'', tr_file_id = ''f1'', tr_name = ''to_pdf'', tr_params = [],
     tr_status = ''PENDING'', tr_started_at = None, tr_finished_at = None, tr_error = None\<rparr>"

definition ex_orphan :: task_run where
  "ex_orphan = \<lparr>tr_id = ''r2'', tr_file_id = ''gone'', tr_name = ''to_pdf'', tr_params = [],
     tr_status = ''PENDING'', tr_started_at = None, tr_finished_at = None, tr_error = None\<rparr>"

definition ex_done :: task_run where
  "ex_done = \<lparr>tr_id = ''r3'', tr_file_id = ''f1'', tr_name = ''to_pdf'', tr_params = [],
     tr_status = ''SUCCEEDED'', tr_started_at = Some 1, tr_finished_at = Some 2,
     tr_error = None\<rparr>"

definition ex_db :: database where
  "ex_db = \<lparr>db_task_runs = [ex_run, ex_orphan, ex_done], db_files = [ex_file]\<rparr>"

text \<open>
  A world is the number of handler runs so far.  The object store holds the uploaded
  file until the first handler run and has lost it afterwards.
\<close>

definition ex_s3 :: "nat \<Rightarrow> s3_store" where
  "ex_s3 w bkt key =
     (if w = 0 \<and> bkt = ''bkt'' \<and> key = ''u1/source_files/f1/a.pdf'' then Inr ''%PDF-1.4''
      else Inl (ClientError ''NoSuchKey'' ''An error occurred (NoSuchKey)''))"

definition ex_ok_handler :: "nat handler" where
  "ex_ok_handler = \<lparr>h_name = ''to_pdf'', h_run = (\<lambda>tr f data w. (Inr (), Suc w))\<rparr>"

definition ex_bad_handler :: "nat handler" where
  "ex_bad_handler = \<lparr>h_name = ''doc_convert'',
     h_run = (\<lambda>tr f data w. (Inl (RuntimeError ''no images produced''), Suc w))\<rparr>"

definition ex_manager :: "nat task_manager" where
  "ex_manager = [''to_pdf'' \<mapsto> ex_ok_handler, ''doc_convert'' \<mapsto> ex_bad_handler]"

definition ex_cfg :: S3Config where
  "ex_cfg = \<lparr>endpoint_url = ''http://localhost:9000'', region = ''us-east-1'',
     access_key = ''minioadmin'', secret_key = ''minioadmin'', bucket = ''llmops-bucket''\<rparr>"

text \<open>
  A file whose recorded storage address is stale: the object lies under the canonical
  key of the configured bucket only.
\<close>

definition ex_stale_file :: file_row where
  "ex_stale_file = \<lparr>f_id = ''f1'', f_owner_id = ''u1'', f_user_filename = ''a.pdf'',
     f_mime_type = None, f_byte_size = None, f_sha256 = [],
     f_storage_uri = ''s3://old-bucket/f1/a.pdf'', f_status = ''READY''\<rparr>"

definition ex_stale_db :: database where
  "ex_stale_db = \<lparr>db_task_runs = [ex_run], db_files = [ex_stale_file]\<rparr>"

definition ex_canonical_s3 :: s3_store where
  "ex_canonical_s3 bkt key =
     (if bkt = ''llmops-bucket'' \<and> key = ''u1/source_files/f1/a.pdf'' then Inr ''%PDF-1.4''
      else Inl (ClientError ''NoSuchKey'' ''An error occurred (NoSuchKey)''))"

text \<open>
  An object store that answers the fetch of one key with a server-side error and holds
  the object under the legacy key.
\<close>

definition ex_flaky_s3 :: "string \<Rightarrow> s3_store" where
  "ex_flaky_s3 flaky_key bkt key =
     (if key = flaky_key then Inl (ClientError ''InternalError'' ''An error occurred (InternalError)'')
      else if bkt = ''llmops-bucket'' \<and> key = ''uploads/f1/a.pdf'' then Inr ''%PDF-1.4''
      else Inl (ClientError ''NoSuchKey'' ''An error occurred (NoSuchKey)''))"

section \<open>Example data for the loader\<close>

text \<open>
  Libraries for the examples: both classifiers fail, every PDF has two pages of
  \<open>1000 \<times> 500\<close> and \<open>1001 \<times> 500\<close> pixels, the encoder returns the format name
  followed by the samples, and PyMuPDF refuses to write a document without pages.
\<close>

definition ex_env :: loader_env where
  "ex_env =
     \<lparr>magika_identify_path = (\<lambda>p. None),
      magika_identify_bytes = (\<lambda>d. None),
      mimetypes_guess_type = (\<lambda>p. None),
      abspath = (\<lambda>p. p),
      getcwd = ''/srv'',
      tmp_work = ''/tmp/doc2img-x'',
      read_file = (\<lambda>p. Inr ''%PDF-1.7 from disk''),
      os_makedirs = (\<lambda>d. Inr ()),
      libreoffice_to_pdf = (\<lambda>f d. Inl (RuntimeError ''LibreOffice not installed'')),
      html_to_pdf = (\<lambda>f d. Inl (RuntimeError ''no HTML renderer'')),
      fitz_page_count = (\<lambda>p. Inr 2),
      fitz_get_pixmap =
        (\<lambda>p i d. Inr \<lparr>im_size = (1000 + int i, 500), im_mode = ''RGBA'', im_data = [CHR ''a'']\<rparr>),
      fitz_tobytes =
        (\<lambda>pages. if pages = [] then Inl (ValueError ''cannot save with zero pages'')
                   else Inr ''%PDF-1.7 synthesized''),
      pil_open_rgba =
        (\<lambda>f. Inr \<lparr>im_size = (49, 49), im_mode = ''RGBA'', im_data = [CHR ''b'']\<rparr>),
      pil_composite = (\<lambda>im c. im\<lparr>im_mode := ''RGB''\<rparr>),
      pil_resize = (\<lambda>im sz. Inr (im\<lparr>im_size := sz\<rparr>)),
      pil_convert_rgb = (\<lambda>im. im\<lparr>im_mode := ''RGB''\<rparr>),
      pil_encode = (\<lambda>im f. Inr (f @ im_data im)),
      pil_save_file = (\<lambda>im fp f. Inr ()),
      zip_archive = (\<lambda>entries. concat (map fst entries))\<rparr>"

text \<open>The same libraries over a disk that is full when the second page is written.\<close>

definition ex_disk_full :: loader_env where
  "ex_disk_full =
     ex_env\<lparr>pil_save_file :=
       (\<lambda>im fp f. if fp = ''/srv/doc_images/page_0002.png''
                   then Inl (OtherException ''OSError'' ''No space left on device'')
                   else Inr ())\<rparr>"

text \<open>The first bytes of a WEBP file: \<open>RIFF\<close>, a length, \<open>WEBP\<close>, the first chunk.\<close>

definition ex_webp :: bytes where
  "ex_webp = ''RIFF'' @ [CHR 0x24, CHR 0x00, CHR 0x00, CHR 0x00] @ ''WEBPVP8 ''"

definition ex_png :: bytes where
  "ex_png = [CHR 0x89, CHR ''P'', CHR ''N'', CHR ''G'', CHR 0x0D, CHR 0x0A, CHR 0x1A, CHR 0x0A]"

definition ex_page :: "string \<Rightarrow> image" where
  "ex_page d = \<lparr>im_size = (640, 480), im_mode = ''RGB'', im_data = d\<rparr>"

text \<open>A photograph of \<open>561 \<times> 400\<close> pixels.\<close>

definition ex_photo :: image where
  "ex_photo = \<lparr>im_size = (561, 400), im_mode = ''RGB'', im_data = [CHR ''c'']\<rparr>"

section \<open>Facts about the tables\<close>

lemma get_task_run_id: "get_task_run db k = Some tr \<Longrightarrow> tr_id tr = k"
  by (auto simp: get_task_run_def find_Some_iff)

lemma find_replace_same:
  "find (\<lambda>r. tr_id r = k) rows \<noteq> None \<Longrightarrow> tr_id tr = k \<Longrightarrow>
   find (\<lambda>r. tr_id r = k) (map (\<lambda>r. if tr_id r = k then tr else r) rows) = Some tr"
  by (induction rows) auto

lemma find_replace_other:
  "k' \<noteq> tr_id tr \<Longrightarrow>
   find (\<lambda>r. tr_id r = k') (map (\<lambda>r. if tr_id r = tr_id tr then tr else r) rows)
     = find (\<lambda>r. tr_id r = k') rows"
  by (induction rows) auto

lemma find_append_new:
  "find P rows = None \<Longrightarrow> P x \<Longrightarrow> find P (rows @ [x]) = Some x"
  by (induction rows) (auto split: if_splits)

lemma find_append_other:
  "\<not> P x \<Longrightarrow> find P (rows @ [x]) = find P rows"
  by (induction rows) auto

lemma get_commit_same: "get_task_run (commit_task_run db tr) (tr_id tr) = Some tr"
  by (auto simp: commit_task_run_def get_task_run_def find_replace_same find_append_new)

lemma get_commit_eq: "tr_id t = k \<Longrightarrow> get_task_run (commit_task_run db t) k = Some t"
  using get_commit_same by blast

lemma get_commit_other:
  "k \<noteq> tr_id tr \<Longrightarrow> get_task_run (commit_task_run db tr) k = get_task_run db k"
  by (auto simp: commit_task_run_def get_task_run_def find_replace_other find_append_other)

lemma get_file_commit: "get_file (commit_task_run db tr) k = get_file db k"
  by (simp add: commit_task_run_def get_file_def)

section \<open>Facts about the state machine\<close>

lemma mark_RUNNING:
  "mark db tr ''RUNNING'' err now =
     (let t = (if tr_started_at tr = None
               then tr\<lparr>tr_status := ''RUNNING'', tr_started_at := Some now, tr_error := err\<rparr>
               else tr\<lparr>tr_status := ''RUNNING'', tr_error := err\<rparr>)
      in (commit_task_run db t, t))"
  by (simp add: mark_def Let_def)

lemma mark_FAILED:
  "mark db tr ''FAILED'' err now =
     (let t = tr\<lparr>tr_status := ''FAILED'', tr_finished_at := Some now, tr_error := err\<rparr>
      in (commit_task_run db t, t))"
  by (simp add: mark_def Let_def)

lemma mark_SUCCEEDED:
  "mark db tr ''SUCCEEDED'' err now =
     (let t = tr\<lparr>tr_status := ''SUCCEEDED'', tr_finished_at := Some now, tr_error := err\<rparr>
      in (commit_task_run db t, t))"
  by (simp add: mark_def Let_def)

text \<open>The row of the delivered run after one delivery, in every branch of \<open>run_task\<close>.\<close>

lemma run_task_row:
  assumes "get_task_run db k = Some tr"
  shows "get_task_run (fst (snd (run_task go m k n1 n2 (db, w)))) k =
     Some (case get_file db (tr_file_id tr) of
             None \<Rightarrow> tr\<lparr>tr_status := ''FAILED'', tr_finished_at := Some n1,
                         tr_error := Some ''file not found''\<rparr>
           | Some f \<Rightarrow>
              (let running =
                 (if tr_started_at tr = None
                  then tr\<lparr>tr_status := ''RUNNING'', tr_started_at := Some n1, tr_error := None\<rparr>
                  else tr\<lparr>tr_status := ''RUNNING'', tr_error := None\<rparr>)
               in case get_source_bytes (go w) f of
                    Inl e \<Rightarrow> running\<lparr>tr_status := ''FAILED'', tr_finished_at := Some n2,
                                      tr_error := Some (str_exn e)\<rparr>
                  | Inr data \<Rightarrow>
                     (case fst (manager_run m running f data w) of
                        Inl e \<Rightarrow> running\<lparr>tr_status := ''FAILED'', tr_finished_at := Some n2,
                                          tr_error := Some (str_exn e)\<rparr>
                      | Inr u \<Rightarrow> running\<lparr>tr_status := ''SUCCEEDED'', tr_finished_at := Some n2,
                                          tr_error := None\<rparr>)))"
proof -
  have id: "tr_id tr = k" using assms by (rule get_task_run_id)
  show ?thesis
    using assms id
    by (auto simp: run_task_def mark_RUNNING mark_FAILED mark_SUCCEEDED Let_def get_commit_eq
             split: option.splits sum.splits prod.splits)
qed

text \<open>A delivery for one run leaves the rows of the other runs alone.\<close>

lemma run_task_other:
  assumes "k' \<noteq> k"
  shows "get_task_run (fst (snd (run_task go m k' n1 n2 (db, w)))) k = get_task_run db k"
proof (cases "get_task_run db k'")
  case None
  then show ?thesis by (simp add: run_task_def)
next
  case (Some tr)
  then have id: "tr_id tr = k'" by (rule get_task_run_id)
  show ?thesis
    using Some id assms
    by (auto simp: run_task_def mark_RUNNING mark_FAILED mark_SUCCEEDED Let_def get_commit_other
             split: option.splits sum.splits prod.splits)
qed

lemma run_task_terminal:
  assumes "get_task_run db k = Some tr"
  shows "\<exists>tr'. get_task_run (fst (snd (run_task go m k n1 n2 (db, w)))) k = Some tr' \<and>
           (tr_status tr' = ''SUCCEEDED'' \<or> tr_status tr' = ''FAILED'')"
  by (simp add: run_task_row [OF assms] Let_def split: option.splits sum.splits)

text \<open>The outcome of one delivery and the world it leaves.\<close>

lemma run_task_out:
  assumes "get_task_run db k = Some tr"
  shows "(fst (run_task go m k n1 n2 (db, w)), snd (snd (run_task go m k n1 n2 (db, w)))) =
     (case get_file db (tr_file_id tr) of
        None \<Rightarrow> (Inr (), w)
      | Some f \<Rightarrow>
         (let running =
            (if tr_started_at tr = None
             then tr\<lparr>tr_status := ''RUNNING'', tr_started_at := Some n1, tr_error := None\<rparr>
             else tr\<lparr>tr_status := ''RUNNING'', tr_error := None\<rparr>)
          in case get_source_bytes (go w) f of
               Inl e \<Rightarrow> (Inl e, w)
             | Inr data \<Rightarrow>
                (case manager_run m running f data w of
                   (Inl e, w') \<Rightarrow> (Inl e, w')
                 | (Inr u, w') \<Rightarrow> (Inr (), w'))))"
  using assms
  by (auto simp: run_task_def mark_RUNNING mark_FAILED mark_SUCCEEDED Let_def
           split: option.splits sum.splits prod.splits)

text \<open>A delivery never writes the file table.\<close>

lemma run_task_files:
  "get_file (fst (snd (run_task go m k n1 n2 (db, w)))) j = get_file db j"
  by (auto simp: run_task_def mark_RUNNING mark_FAILED mark_SUCCEEDED Let_def get_file_commit
           split: option.splits sum.splits prod.splits)

section \<open>The task-run state machine\<close>

text \<open>
  Claim C1.  One delivered trigger with run id \<open>k\<close> is handled in this order.  When no
  run has the id, nothing changes and the task returns.  When the run exists and its
  file does not, the run is stored as FAILED with the error text \<open>file not found\<close>,
  no handler runs, and the task returns.  Otherwise the run is first marked RUNNING;
  the source bytes are fetched; the registry runs the handler of the run's name on the
  run as marked; a normal return of the handler stores the run as SUCCEEDED and the
  task returns; an exception of the fetch or of the handler stores the run as FAILED
  with the text of that exception, and the same exception leaves the task.
\<close>

theorem run_task_sequence:
  "(get_task_run db k = None \<longrightarrow> run_task go m k n1 n2 (db, w) = (Inr (), db, w))
 \<and> (\<forall>tr. get_task_run db k = Some tr \<and> get_file db (tr_file_id tr) = None \<longrightarrow>
        fst (run_task go m k n1 n2 (db, w)) = Inr () \<and>
        snd (snd (run_task go m k n1 n2 (db, w))) = w \<and>
        get_task_run (fst (snd (run_task go m k n1 n2 (db, w)))) k =
          Some (tr\<lparr>tr_status := ''FAILED'', tr_finished_at := Some n1,
                   tr_error := Some ''file not found''\<rparr>))
 \<and> (\<forall>tr f running.
        get_task_run db k = Some tr \<and> get_file db (tr_file_id tr) = Some f \<and>
        running = (if tr_started_at tr = None
                   then tr\<lparr>tr_status := ''RUNNING'', tr_started_at := Some n1,
                           tr_error := None\<rparr>
                   else tr\<lparr>tr_status := ''RUNNING'', tr_error := None\<rparr>) \<longrightarrow>
        (\<forall>e. get_source_bytes (go w) f = Inl e \<longrightarrow>
           fst (run_task go m k n1 n2 (db, w)) = Inl e \<and>
           snd (snd (run_task go m k n1 n2 (db, w))) = w \<and>
           get_task_run (fst (snd (run_task go m k n1 n2 (db, w)))) k =
             Some (running\<lparr>tr_status := ''FAILED'', tr_finished_at := Some n2,
                           tr_error := Some (str_exn e)\<rparr>))
      \<and> (\<forall>data e w'. get_source_bytes (go w) f = Inr data \<and>
                       manager_run m running f data w = (Inl e, w') \<longrightarrow>
           fst (run_task go m k n1 n2 (db, w)) = Inl e \<and>
           snd (snd (run_task go m k n1 n2 (db, w))) = w' \<and>
           get_task_run (fst (snd (run_task go m k n1 n2 (db, w)))) k =
             Some (running\<lparr>tr_status := ''FAILED'', tr_finished_at := Some n2,
                           tr_error := Some (str_exn e)\<rparr>))
      \<and> (\<forall>data w'. get_source_bytes (go w) f = Inr data \<and>
                     manager_run m running f data w = (Inr (), w') \<longrightarrow>
           fst (run_task go m k n1 n2 (db, w)) = Inr () \<and>
           snd (snd (run_task go m k n1 n2 (db, w))) = w' \<and>
           get_task_run (fst (snd (run_task go m k n1 n2 (db, w)))) k =
             Some (running\<lparr>tr_status := ''SUCCEEDED'', tr_finished_at := Some n2,
                           tr_error := None\<rparr>)))"
proof (intro conjI allI impI; (elim conjE)?)
  assume "get_task_run db k = None"
  then show "run_task go m k n1 n2 (db, w) = (Inr (), db, w)"
    by (simp add: run_task_def)
next
  fix tr
  assume a: "get_task_run db k = Some tr" "get_file db (tr_file_id tr) = None"
  show "fst (run_task go m k n1 n2 (db, w)) = Inr ()"
    using run_task_out [OF a(1), of go m n1 n2 w] a(2) by simp
  show "snd (snd (run_task go m k n1 n2 (db, w))) = w"
    using run_task_out [OF a(1), of go m n1 n2 w] a(2) by simp
  show "get_task_run (fst (snd (run_task go m k n1 n2 (db, w)))) k =
          Some (tr\<lparr>tr_status := ''FAILED'', tr_finished_at := Some n1,
                   tr_error := Some ''file not found''\<rparr>)"
    using run_task_row [OF a(1), of go m n1 n2 w] a(2) by simp
next
  fix tr f running e
  assume a: "get_task_run db k = Some tr" "get_file db (tr_file_id tr) = Some f"
    "running = (if tr_started_at tr = None
                then tr\<lparr>tr_status := ''RUNNING'', tr_started_at := Some n1, tr_error := None\<rparr>
                else tr\<lparr>tr_status := ''RUNNING'', tr_error := None\<rparr>)"
    and b: "get_source_bytes (go w) f = Inl e"
  show "fst (run_task go m k n1 n2 (db, w)) = Inl e"
    using run_task_out [OF a(1), of go m n1 n2 w] a(2) b by (simp add: Let_def)
  show "snd (snd (run_task go m k n1 n2 (db, w))) = w"
    using run_task_out [OF a(1), of go m n1 n2 w] a(2) b by (simp add: Let_def)
  show "get_task_run (fst (snd (run_task go m k n1 n2 (db, w)))) k =
          Some (running\<lparr>tr_status := ''FAILED'', tr_finished_at := Some n2,
                        tr_error := Some (str_exn e)\<rparr>)"
    using run_task_row [OF a(1), of go m n1 n2 w] a(2,3) b by (simp add: Let_def)
next
  fix tr f running data e w'
  assume a: "get_task_run db k = Some tr" "get_file db (tr_file_id tr) = Some f"
    "running = (if tr_started_at tr = None
                then tr\<lparr>tr_status := ''RUNNING'', tr_started_at := Some n1, tr_error := None\<rparr>
                else tr\<lparr>tr_status := ''RUNNING'', tr_error := None\<rparr>)"
    and b: "get_source_bytes (go w) f = Inr data" "manager_run m running f data w = (Inl e, w')"
  show "fst (run_task go m k n1 n2 (db, w)) = Inl e"
    using run_task_out [OF a(1), of go m n1 n2 w] a(2,3) b by (simp add: Let_def)
  show "snd (snd (run_task go m k n1 n2 (db, w))) = w'"
    using run_task_out [OF a(1), of go m n1 n2 w] a(2,3) b by (simp add: Let_def)
  show "get_task_run (fst (snd (run_task go m k n1 n2 (db, w)))) k =
          Some (running\<lparr>tr_status := ''FAILED'', tr_finished_at := Some n2,
                        tr_error := Some (str_exn e)\<rparr>)"
    using run_task_row [OF a(1), of go m n1 n2 w] a(2,3) b by (simp add: Let_def)
next
  fix tr f running data w'
  assume a: "get_task_run db k = Some tr" "get_file db (tr_file_id tr) = Some f"
    "running = (if tr_started_at tr = None
                then tr\<lparr>tr_status := ''RUNNING'', tr_started_at := Some n1, tr_error := None\<rparr>
                else tr\<lparr>tr_status := ''RUNNING'', tr_error := None\<rparr>)"
    and b: "get_source_bytes (go w) f = Inr data" "manager_run m running f data w = (Inr (), w')"
  show "fst (run_task go m k n1 n2 (db, w)) = Inr ()"
    using run_task_out [OF a(1), of go m n1 n2 w] a(2,3) b by (simp add: Let_def)
  show "snd (snd (run_task go m k n1 n2 (db, w))) = w'"
    using run_task_out [OF a(1), of go m n1 n2 w] a(2,3) b by (simp add: Let_def)
  show "get_task_run (fst (snd (run_task go m k n1 n2 (db, w)))) k =
          Some (running\<lparr>tr_status := ''SUCCEEDED'', tr_finished_at := Some n2,
                        tr_error := None\<rparr>)"
    using run_task_row [OF a(1), of go m n1 n2 w] a(2,3) b by (simp add: Let_def)
qed

text \<open>
  The four branches on the example database: an unknown id, a run whose file is gone,
  a run whose handler returns, and the same run when the stored object is missing.
\<close>

theorem run_task_sequence_witness:
  "get_task_run ex_db ''r9'' = None
 \<and> run_task ex_s3 ex_manager ''r9'' 5 9 (ex_db, 0) = (Inr (), ex_db, 0)
 \<and> get_task_run ex_db ''r2'' = Some ex_orphan \<and> get_file ex_db (tr_file_id ex_orphan) = None
 \<and> fst (run_task ex_s3 ex_manager ''r2'' 5 9 (ex_db, 0)) = Inr ()
 \<and> get_task_run (fst (snd (run_task ex_s3 ex_manager ''r2'' 5 9 (ex_db, 0)))) ''r2'' =
      Some (ex_orphan\<lparr>tr_status := ''FAILED'', tr_finished_at := Some 5,
                       tr_error := Some ''file not found''\<rparr>)
 \<and> get_task_run ex_db ''r1'' = Some ex_run \<and> get_file ex_db (tr_file_id ex_run) = Some ex_file
 \<and> get_source_bytes (ex_s3 0) ex_file = Inr ''%PDF-1.4''
 \<and> fst (run_task ex_s3 ex_manager ''r1'' 5 9 (ex_db, 0)) = Inr ()
 \<and> snd (snd (run_task ex_s3 ex_manager ''r1'' 5 9 (ex_db, 0))) = 1
 \<and> get_task_run (fst (snd (run_task ex_s3 ex_manager ''r1'' 5 9 (ex_db, 0)))) ''r1'' =
      Some (ex_run\<lparr>tr_status := ''SUCCEEDED'', tr_started_at := Some 5,
                    tr_finished_at := Some 9, tr_error := None\<rparr>)
 \<and> get_source_bytes (ex_s3 1) ex_file =
      Inl (ClientError ''NoSuchKey'' ''An error occurred (NoSuchKey)'')
 \<and> fst (run_task ex_s3 ex_manager ''r1'' 5 9 (ex_db, 1)) =
      Inl (ClientError ''NoSuchKey'' ''An error occurred (NoSuchKey)'')
 \<and> get_task_run (fst (snd (run_task ex_s3 ex_manager ''r1'' 5 9 (ex_db, 1)))) ''r1'' =
      Some (ex_run\<lparr>tr_status := ''FAILED'', tr_started_at := Some 5,
                    tr_finished_at := Some 9,
                    tr_error := Some ''An error occurred (NoSuchKey)''\<rparr>)"
proof -
  have g9: "get_task_run ex_db ''r9'' = None"
    by (simp add: get_task_run_def ex_db_def ex_run_def ex_orphan_def ex_done_def)
  have g2: "get_task_run ex_db ''r2'' = Some ex_orphan"
    by (simp add: get_task_run_def ex_db_def ex_run_def ex_orphan_def ex_done_def)
  have f2: "get_file ex_db (tr_file_id ex_orphan) = None"
    by (simp add: get_file_def ex_db_def ex_orphan_def ex_file_def)
  have g1: "get_task_run ex_db ''r1'' = Some ex_run"
    by (simp add: get_task_run_def ex_db_def ex_run_def ex_orphan_def ex_done_def)
  have f1: "get_file ex_db (tr_file_id ex_run) = Some ex_file"
    by (simp add: get_file_def ex_db_def ex_run_def ex_file_def)
  have s0: "get_source_bytes (ex_s3 0) ex_file = Inr ''%PDF-1.4''"
    by (simp add: get_source_bytes_def split_s3_uri_def ex_s3_def ex_file_def)
  have s1: "get_source_bytes (ex_s3 1) ex_file =
      Inl (ClientError ''NoSuchKey'' ''An error occurred (NoSuchKey)'')"
    by (simp add: get_source_bytes_def split_s3_uri_def ex_s3_def ex_file_def)
  have st: "tr_started_at ex_run = None" "tr_name ex_run = ''to_pdf''"
    by (simp_all add: ex_run_def)
  have mr: "manager_run ex_manager
              (ex_run\<lparr>tr_status := ''RUNNING'', tr_started_at := Some 5, tr_error := None\<rparr>)
              ex_file ''%PDF-1.4'' 0 = (Inr (), 1)"
    by (simp add: manager_run_def ex_manager_def ex_ok_handler_def st lower_def strip_def
                  lower_char_def is_space_def)
  note a = run_task_sequence [of ex_db "''r9''" ex_s3 ex_manager 5 9 0]
  note b = run_task_sequence [of ex_db "''r2''" ex_s3 ex_manager 5 9 0]
  note c = run_task_sequence [of ex_db "''r1''" ex_s3 ex_manager 5 9 0]
  note d = run_task_sequence [of ex_db "''r1''" ex_s3 ex_manager 5 9 1]
  show ?thesis
    using a b c d g9 g2 f2 g1 f1 s0 s1 st mr by simp
qed

text \<open>
  Claim C3, as the claim states it, fails.  The two time stamps of a delivery are two
  readings of the wall clock (\<open>datetime.utcnow()\<close> in \<open>_mark\<close>), and nothing in
  \<open>run_task\<close> compares them.  The run \<open>r1\<close> is created PENDING without a start time;
  its trigger is delivered while the clock is set back, so that the first reading is 9
  and the second is 5: the run ends SUCCEEDED with the start time 9 and the finish
  time 5.
\<close>

theorem task_run_clock_counterexample:
  "get_task_run ex_db ''r1'' = Some ex_run
 \<and> tr_status ex_run = ''PENDING'' \<and> tr_started_at ex_run = None
 \<and> map_option (\<lambda>t. (tr_status t, tr_started_at t, tr_finished_at t))
      (get_task_run (fst (snd (run_task ex_s3 ex_manager ''r1'' 9 5 (ex_db, 0)))) ''r1'')
     = Some (''SUCCEEDED'', Some 9, Some 5)
 \<and> \<not> (9::nat) \<le> 5"
proof -
  have g1: "get_task_run ex_db ''r1'' = Some ex_run"
    by (simp add: get_task_run_def ex_db_def ex_run_def ex_orphan_def ex_done_def)
  have f1: "get_file ex_db ''f1'' = Some ex_file"
    by (simp add: get_file_def ex_db_def ex_file_def)
  have s0: "get_source_bytes (ex_s3 0) ex_file = Inr ''%PDF-1.4''"
    by (simp add: get_source_bytes_def split_s3_uri_def ex_s3_def ex_file_def)
  have st: "tr_started_at ex_run = None" "tr_name ex_run = ''to_pdf''"
    "tr_file_id ex_run = ''f1''" "tr_status ex_run = ''PENDING''"
    by (simp_all add: ex_run_def)
  have mr: "manager_run ex_manager
              (ex_run\<lparr>tr_status := ''RUNNING'', tr_started_at := Some 9, tr_error := None\<rparr>)
              ex_file ''%PDF-1.4'' 0 = (Inr (), 1)"
    by (simp add: manager_run_def ex_manager_def ex_ok_handler_def st lower_def strip_def
                  lower_char_def is_space_def)
  have row: "get_task_run (fst (snd (run_task ex_s3 ex_manager ''r1'' 9 5 (ex_db, 0)))) ''r1'' =
      Some (ex_run\<lparr>tr_status := ''SUCCEEDED'', tr_started_at := Some 9,
                    tr_finished_at := Some 5, tr_error := None\<rparr>)"
    using run_task_row [OF g1, of ex_s3 ex_manager 9 5 0] f1 s0 st mr by (simp add: Let_def)
  show ?thesis
    using g1 st row by simp
qed

text \<open>
  Claim C3, amended.  A run that exists is, after one delivery, in exactly one of
  SUCCEEDED and FAILED, and its error is set exactly when it is FAILED.  A start time
  that was already set is kept.  A run without a start time, as a run is created, gets
  the first clock reading \<open>n1\<close> as its start time and the second reading \<open>n2\<close> as its
  finish time when its file exists; when its file does not exist it gets no start time
  and the one clock reading as its finish time.  So its finish time is not earlier than
  its start time provided that the clock does not go back between the two readings
  (\<open>n1 \<le> n2\<close>).
\<close>

theorem task_run_lifecycle:
  assumes "get_task_run db k = Some tr"
  shows "\<exists>tr'. get_task_run (fst (snd (run_task go m k n1 n2 (db, w)))) k = Some tr' \<and>
           (tr_status tr' = ''SUCCEEDED'' \<or> tr_status tr' = ''FAILED'') \<and>
           \<not> (tr_status tr' = ''SUCCEEDED'' \<and> tr_status tr' = ''FAILED'') \<and>
           ((tr_error tr' \<noteq> None) = (tr_status tr' = ''FAILED'')) \<and>
           (\<forall>s. tr_started_at tr = Some s \<longrightarrow> tr_started_at tr' = Some s) \<and>
           (tr_started_at tr = None \<longrightarrow>
              (get_file db (tr_file_id tr) = None \<longrightarrow>
                 tr_started_at tr' = None \<and> tr_finished_at tr' = Some n1) \<and>
              (get_file db (tr_file_id tr) \<noteq> None \<longrightarrow>
                 tr_started_at tr' = Some n1 \<and> tr_finished_at tr' = Some n2) \<and>
              (n1 \<le> n2 \<longrightarrow>
                 (\<exists>fin. tr_finished_at tr' = Some fin \<and>
                    (\<forall>s. tr_started_at tr' = Some s \<longrightarrow> s \<le> fin))))"
  by (simp add: run_task_row [OF assms] Let_def split: option.splits sum.splits)

text \<open>
  A run as created, delivered once with clock readings 5 and 9; a run whose file is
  gone; and a run that has a start time already, delivered again.
\<close>

theorem task_run_lifecycle_witness:
  "get_task_run ex_db ''r1'' = Some ex_run
 \<and> tr_started_at ex_run = None \<and> (5::nat) \<le> 9
 \<and> get_file ex_db (tr_file_id ex_run) \<noteq> None
 \<and> (\<exists>tr'. get_task_run (fst (snd (run_task ex_s3 ex_manager ''r1'' 5 9 (ex_db, 0)))) ''r1''
             = Some tr' \<and>
           (tr_status tr' = ''SUCCEEDED'' \<or> tr_status tr' = ''FAILED'') \<and>
           tr_started_at tr' = Some 5 \<and> tr_finished_at tr' = Some 9)
 \<and> get_task_run ex_db ''r2'' = Some ex_orphan
 \<and> tr_started_at ex_orphan = None \<and> get_file ex_db (tr_file_id ex_orphan) = None
 \<and> (\<exists>tr'. get_task_run (fst (snd (run_task ex_s3 ex_manager ''r2'' 5 9 (ex_db, 0)))) ''r2''
             = Some tr' \<and>
           (tr_status tr' = ''SUCCEEDED'' \<or> tr_status tr' = ''FAILED'') \<and>
           tr_started_at tr' = None \<and> tr_finished_at tr' = Some 5)
 \<and> get_task_run ex_db ''r3'' = Some ex_done \<and> tr_started_at ex_done = Some 1
 \<and> (\<exists>tr'. get_task_run (fst (snd (run_task ex_s3 ex_manager ''r3'' 5 9 (ex_db, 0)))) ''r3''
             = Some tr' \<and> tr_started_at tr' = Some 1)"
proof -
  have g1: "get_task_run ex_db ''r1'' = Some ex_run"
    by (simp add: get_task_run_def ex_db_def ex_run_def ex_orphan_def ex_done_def)
  have g2: "get_task_run ex_db ''r2'' = Some ex_orphan"
    by (simp add: get_task_run_def ex_db_def ex_run_def ex_orphan_def ex_done_def)
  have g3: "get_task_run ex_db ''r3'' = Some ex_done"
    by (simp add: get_task_run_def ex_db_def ex_run_def ex_orphan_def ex_done_def)
  have f1: "get_file ex_db (tr_file_id ex_run) \<noteq> None"
    by (simp add: get_file_def ex_db_def ex_run_def ex_file_def)
  have f2: "get_file ex_db (tr_file_id ex_orphan) = None"
    by (simp add: get_file_def ex_db_def ex_orphan_def ex_file_def)
  have st: "tr_started_at ex_run = None" "tr_started_at ex_orphan = None"
    "tr_started_at ex_done = Some 1"
    by (simp_all add: ex_run_def ex_orphan_def ex_done_def)
  from task_run_lifecycle [OF g1, of ex_s3 ex_manager 5 9 0] st f1
  have a: "\<exists>tr'. get_task_run (fst (snd (run_task ex_s3 ex_manager ''r1'' 5 9 (ex_db, 0)))) ''r1''
             = Some tr' \<and>
           (tr_status tr' = ''SUCCEEDED'' \<or> tr_status tr' = ''FAILED'') \<and>
           tr_started_at tr' = Some 5 \<and> tr_finished_at tr' = Some 9"
    by fastforce
  from task_run_lifecycle [OF g2, of ex_s3 ex_manager 5 9 0] st f2
  have o: "\<exists>tr'. get_task_run (fst (snd (run_task ex_s3 ex_manager ''r2'' 5 9 (ex_db, 0)))) ''r2''
             = Some tr' \<and>
           (tr_status tr' = ''SUCCEEDED'' \<or> tr_status tr' = ''FAILED'') \<and>
           tr_started_at tr' = None \<and> tr_finished_at tr' = Some 5"
    by fastforce
  from task_run_lifecycle [OF g3, of ex_s3 ex_manager 5 9 0] st
  have b: "\<exists>tr'. get_task_run (fst (snd (run_task ex_s3 ex_manager ''r3'' 5 9 (ex_db, 0)))) ''r3''
             = Some tr' \<and> tr_started_at tr' = Some 1"
    by fastforce
  show ?thesis using g1 g2 g3 f1 f2 st a o b by simp
qed

text \<open>
  Claim C2, as the claim states it, fails.  The run \<open>r1\<close> is created PENDING; its
  trigger is delivered and the run becomes SUCCEEDED; the same trigger is delivered
  again, the stored object is gone by then, and the run becomes FAILED.
\<close>

theorem terminal_states_counterexample:
  "map_option tr_status
     (get_task_run (fst (run_tasks ex_s3 ex_manager [(''r1'', 5, 9)] (ex_db, 0))) ''r1'')
     = Some ''SUCCEEDED''
 \<and> map_option tr_status
     (get_task_run
        (fst (run_tasks ex_s3 ex_manager [(''r1'', 5, 9), (''r1'', 12, 13)] (ex_db, 0))) ''r1'')
     = Some ''FAILED''"
proof -
  obtain out db1 w1 where r: "run_task ex_s3 ex_manager ''r1'' 5 9 (ex_db, 0) = (out, db1, w1)"
    by (cases "run_task ex_s3 ex_manager ''r1'' 5 9 (ex_db, 0)")
  have g1: "get_task_run ex_db ''r1'' = Some ex_run"
    by (simp add: get_task_run_def ex_db_def ex_run_def ex_orphan_def ex_done_def)
  have f1: "get_file ex_db ''f1'' = Some ex_file"
    by (simp add: get_file_def ex_db_def ex_file_def)
  have s0: "get_source_bytes (ex_s3 0) ex_file = Inr ''%PDF-1.4''"
    by (simp add: get_source_bytes_def split_s3_uri_def ex_s3_def ex_file_def)
  have s1: "get_source_bytes (ex_s3 1) ex_file =
      Inl (ClientError ''NoSuchKey'' ''An error occurred (NoSuchKey)'')"
    by (simp add: get_source_bytes_def split_s3_uri_def ex_s3_def ex_file_def)
  have st: "tr_started_at ex_run = None" "tr_name ex_run = ''to_pdf''"
    "tr_file_id ex_run = ''f1''"
    by (simp_all add: ex_run_def)
  have mr: "manager_run ex_manager
              (ex_run\<lparr>tr_status := ''RUNNING'', tr_started_at := Some 5, tr_error := None\<rparr>)
              ex_file ''%PDF-1.4'' 0 = (Inr (), 1)"
    by (simp add: manager_run_def ex_manager_def ex_ok_handler_def st lower_def strip_def
                  lower_char_def is_space_def)
  have w1: "w1 = 1"
    using run_task_out [OF g1, of ex_s3 ex_manager 5 9 0] r f1 s0 st mr by (simp add: Let_def)
  have row1: "get_task_run db1 ''r1'' =
      Some (ex_run\<lparr>tr_status := ''SUCCEEDED'', tr_started_at := Some 5,
                    tr_finished_at := Some 9, tr_error := None\<rparr>)"
    using run_task_row [OF g1, of ex_s3 ex_manager 5 9 0] r f1 s0 st mr by (simp add: Let_def)
  have files1: "get_file db1 ''f1'' = Some ex_file"
    using run_task_files [of ex_s3 ex_manager "''r1''" 5 9 ex_db 0 "''f1''"] r f1 by simp
  have row2: "map_option tr_status
      (get_task_run (fst (snd (run_task ex_s3 ex_manager ''r1'' 12 13 (db1, 1)))) ''r1'')
      = Some ''FAILED''"
    using run_task_row [OF row1, of ex_s3 ex_manager 12 13 1] files1 s1 st
    by (simp add: Let_def)
  show ?thesis
    using r w1 row1 row2 by simp
qed

text \<open>
  Claim C2, amended.  The state machine does not look at the status of the run it is
  given, so a redelivered trigger runs the whole sequence again.  What holds for every
  sequence of deliveries: a run that is SUCCEEDED or FAILED is SUCCEEDED or FAILED
  after the sequence (a redelivery may move it from one to the other), and a sequence
  that delivers only other run ids leaves its record as it is.
\<close>

theorem terminal_states_closed:
  assumes "get_task_run db k = Some tr"
    and "tr_status tr = ''SUCCEEDED'' \<or> tr_status tr = ''FAILED''"
  shows "\<exists>tr'. get_task_run (fst (run_tasks go m ds (db, w))) k = Some tr' \<and>
           (tr_status tr' = ''SUCCEEDED'' \<or> tr_status tr' = ''FAILED'') \<and>
           (k \<notin> fst ` set ds \<longrightarrow> tr' = tr)"
  using assms
proof (induction ds arbitrary: db w tr)
  case Nil
  then show ?case by simp
next
  case (Cons d ds)
  obtain k' n1 n2 where d: "d = (k', n1, n2)" by (cases d)
  obtain out db' w' where r: "run_task go m k' n1 n2 (db, w) = (out, db', w')"
    by (cases "run_task go m k' n1 n2 (db, w)")
  have step: "run_tasks go m (d # ds) (db, w) = run_tasks go m ds (db', w')"
    by (simp add: d r)
  show ?case
  proof (cases "k' = k")
    case True
    from run_task_terminal [OF Cons.prems(1), of go m n1 n2 w] True r
    obtain t where t: "get_task_run db' k = Some t"
      "tr_status t = ''SUCCEEDED'' \<or> tr_status t = ''FAILED''"
      by auto
    from Cons.IH [OF t] True d step show ?thesis by auto
  next
    case False
    from run_task_other [OF False, of go m n1 n2 db w] r Cons.prems(1)
    have "get_task_run db' k = Some tr" by simp
    from Cons.IH [OF this Cons.prems(2)] False d step show ?thesis by auto
  qed
qed

text \<open>
  The finished run \<open>r3\<close>: a redelivery of its own trigger after the stored object is
  gone, and a delivery for another run.
\<close>

theorem terminal_states_closed_witness:
  "get_task_run ex_db ''r3'' = Some ex_done \<and> tr_status ex_done = ''SUCCEEDED''
 \<and> (\<exists>tr'. get_task_run (fst (run_tasks ex_s3 ex_manager [(''r3'', 12, 13)] (ex_db, 1))) ''r3''
             = Some tr' \<and>
           (tr_status tr' = ''SUCCEEDED'' \<or> tr_status tr' = ''FAILED''))
 \<and> ''r3'' \<notin> fst ` set [(''r1'', 5::nat, 9::nat)]
 \<and> get_task_run (fst (run_tasks ex_s3 ex_manager [(''r1'', 5, 9)] (ex_db, 0))) ''r3''
      = Some ex_done"
proof -
  have g3: "get_task_run ex_db ''r3'' = Some ex_done"
    by (simp add: get_task_run_def ex_db_def ex_run_def ex_orphan_def ex_done_def)
  have st: "tr_status ex_done = ''SUCCEEDED'' \<or> tr_status ex_done = ''FAILED''"
    by (simp add: ex_done_def)
  have n: "''r3'' \<notin> fst ` set [(''r1'', 5::nat, 9::nat)]" by simp
  from terminal_states_closed [OF g3 st, of ex_s3 ex_manager "[(''r3'', 12, 13)]" 1]
  have a: "\<exists>tr'. get_task_run (fst (run_tasks ex_s3 ex_manager [(''r3'', 12, 13)] (ex_db, 1)))
                    ''r3'' = Some tr' \<and>
                 (tr_status tr' = ''SUCCEEDED'' \<or> tr_status tr' = ''FAILED'')"
    by blast
  from terminal_states_closed [OF g3 st, of ex_s3 ex_manager "[(''r1'', 5, 9)]" 0] n
  have b: "get_task_run (fst (run_tasks ex_s3 ex_manager [(''r1'', 5, 9)] (ex_db, 0))) ''r3''
             = Some ex_done"
    by blast
  show ?thesis using g3 a b n by (simp add: ex_done_def)
qed

section \<open>The handler registry\<close>








section \<open>Source resolution\<close>

text \<open>
  What the resolution does when no fetch raises anything but a missing object: the first
  candidate that holds the object gives the bytes, and three misses give the 404 with
  the three attempts in their order.  On the first candidate any exception counts as a
  miss.
\<close>

lemma resolve_first_hit:
  assumes "split_s3_uri (f_storage_uri f) = Inr (bkt, key)"
    and "s3 bkt key = Inr data"
  shows "resolve_source_bytes_or_404 cfg s3 f = Inr data"
  using assms by (simp add: resolve_source_bytes_or_404_def try_get_object_bytes_def)

lemma resolve_second_hit:
  assumes "split_s3_uri (f_storage_uri f) = Inl e \<or>
           (\<exists>bkt key e. split_s3_uri (f_storage_uri f) = Inr (bkt, key) \<and> s3 bkt key = Inl e)"
    and "s3 (bucket cfg) (f_owner_id f @ ''/source_files/'' @ f_id f @ ''/'' @ f_user_filename f)
           = Inr data"
  shows "resolve_source_bytes_or_404 cfg s3 f = Inr data"
  using assms
  by (auto simp: resolve_source_bytes_or_404_def try_get_object_bytes_def Let_def
           split: sum.splits exn.splits option.splits)

lemma resolve_all_missing:
  assumes "split_s3_uri (f_storage_uri f) = Inr (bkt, key)"
    and "\<And>d. try_get_object_bytes s3 bkt key \<noteq> Inr (Some d)"
    and "try_get_object_bytes s3 (bucket cfg)
           (f_owner_id f @ ''/source_files/'' @ f_id f @ ''/'' @ f_user_filename f) = Inr None"
    and "try_get_object_bytes s3 (bucket cfg)
           (''uploads/'' @ f_id f @ ''/'' @ f_user_filename f) = Inr None"
  shows "resolve_source_bytes_or_404 cfg s3 f =
     Inl (HTTPException 404
            \<lparr>d_message = ''source object not found in S3'',
             d_tried = [(bkt, key, ''db.storage_uri''),
                        (bucket cfg,
                         f_owner_id f @ ''/source_files/'' @ f_id f @ ''/'' @ f_user_filename f,
                         ''new_rule''),
                        (bucket cfg, ''uploads/'' @ f_id f @ ''/'' @ f_user_filename f,
                         ''old_rule'')],
             d_hint = resolve_hint\<rparr>)"
  using assms
  by (auto simp: resolve_source_bytes_or_404_def Let_def split: sum.splits option.splits)

text \<open>Where the worker's fetch succeeds, the fallback chain returns the same bytes.\<close>

lemma worker_fetch_agrees:
  assumes "get_source_bytes s3 f = Inr data"
  shows "resolve_source_bytes_or_404 cfg s3 f = Inr data"
  using assms
  by (auto simp: get_source_bytes_def resolve_source_bytes_or_404_def try_get_object_bytes_def
           split: sum.splits prod.splits)

text \<open>
  Claim C4 does not hold of the worker.  The worker's \<open>_get_source_bytes\<close> fetches
  from the recorded storage address only; the fallback chain is the function of
  \<open>app.py\<close>, which the worker does not call.  For a file whose recorded address is
  stale while the canonical key holds the object, the fallback chain returns the bytes,
  the worker's fetch raises, and the run is stored as FAILED without any handler run.
\<close>

theorem worker_fetch_has_no_fallback:
  "resolve_source_bytes_or_404 ex_cfg ex_canonical_s3 ex_stale_file = Inr ''%PDF-1.4''
 \<and> get_source_bytes ex_canonical_s3 ex_stale_file
      = Inl (ClientError ''NoSuchKey'' ''An error occurred (NoSuchKey)'')
 \<and> fst (run_task (\<lambda>w. ex_canonical_s3) ex_manager ''r1'' 5 9 (ex_stale_db, 0))
      = Inl (ClientError ''NoSuchKey'' ''An error occurred (NoSuchKey)'')
 \<and> snd (snd (run_task (\<lambda>w. ex_canonical_s3) ex_manager ''r1'' 5 9 (ex_stale_db, 0))) = 0
 \<and> map_option tr_status
      (get_task_run
         (fst (snd (run_task (\<lambda>w. ex_canonical_s3) ex_manager ''r1'' 5 9 (ex_stale_db, 0))))
         ''r1'')
      = Some ''FAILED''"
proof -
  have sp: "split_s3_uri (f_storage_uri ex_stale_file) = Inr (''old-bucket'', ''f1/a.pdf'')"
    by (simp add: split_s3_uri_def ex_stale_file_def)
  have t: "try_get_object_bytes ex_canonical_s3 ''old-bucket'' ''f1/a.pdf'' = Inr None"
    "try_get_object_bytes ex_canonical_s3 ''llmops-bucket'' ''u1/source_files/f1/a.pdf''
       = Inr (Some ''%PDF-1.4'')"
    by (simp_all add: try_get_object_bytes_def ex_canonical_s3_def)
  have 1: "resolve_source_bytes_or_404 ex_cfg ex_canonical_s3 ex_stale_file = Inr ''%PDF-1.4''"
    by (simp add: resolve_source_bytes_or_404_def sp t ex_cfg_def)
       (simp add: ex_stale_file_def t)
  have 2: "get_source_bytes ex_canonical_s3 ex_stale_file
      = Inl (ClientError ''NoSuchKey'' ''An error occurred (NoSuchKey)'')"
    by (simp add: get_source_bytes_def sp ex_canonical_s3_def)
  have g: "get_task_run ex_stale_db ''r1'' = Some ex_run"
    by (simp add: get_task_run_def ex_stale_db_def ex_run_def)
  have f: "get_file ex_stale_db (tr_file_id ex_run) = Some ex_stale_file"
    by (simp add: get_file_def ex_stale_db_def ex_run_def ex_stale_file_def)
  have 3: "fst (run_task (\<lambda>w. ex_canonical_s3) ex_manager ''r1'' 5 9 (ex_stale_db, 0))
      = Inl (ClientError ''NoSuchKey'' ''An error occurred (NoSuchKey)'')"
    "snd (snd (run_task (\<lambda>w. ex_canonical_s3) ex_manager ''r1'' 5 9 (ex_stale_db, 0))) = 0"
    using run_task_out [OF g, of "\<lambda>w. ex_canonical_s3" ex_manager 5 9 0] f 2
    by (simp_all add: Let_def)
  have 4: "map_option tr_status
      (get_task_run
         (fst (snd (run_task (\<lambda>w. ex_canonical_s3) ex_manager ''r1'' 5 9 (ex_stale_db, 0))))
         ''r1'')
      = Some ''FAILED''"
    using run_task_row [OF g, of "\<lambda>w. ex_canonical_s3" ex_manager 5 9 0] f 2
    by (simp add: Let_def)
  from 1 2 3 4 show ?thesis by simp
qed

text \<open>
  Claim C5 does not hold of the second and third candidate.  Only the first attempt is
  inside a \<open>try\<close> that swallows every exception; an error other than a missing object
  on the canonical or on the legacy key leaves the function at once.  Here the recorded
  address is missing, the fetch of the canonical key answers with a server-side error,
  and the legacy key holds the object: the resolution raises that error and never tries
  the legacy key.  The same error on the recorded address is passed over, and the
  legacy key is reached.
\<close>

theorem resolve_hard_error_not_passed_over:
  "resolve_source_bytes_or_404 ex_cfg (ex_flaky_s3 ''u1/source_files/f1/a.pdf'') ex_stale_file
     = Inl (Raised (ClientError ''InternalError'' ''An error occurred (InternalError)''))
 \<and> resolve_source_bytes_or_404 ex_cfg (ex_flaky_s3 ''f1/a.pdf'') ex_stale_file
     = Inr ''%PDF-1.4''"
proof -
  have sp: "split_s3_uri (f_storage_uri ex_stale_file) = Inr (''old-bucket'', ''f1/a.pdf'')"
    by (simp add: split_s3_uri_def ex_stale_file_def)
  have a: "try_get_object_bytes (ex_flaky_s3 ''u1/source_files/f1/a.pdf'') ''old-bucket''
             ''f1/a.pdf'' = Inr None"
    "try_get_object_bytes (ex_flaky_s3 ''u1/source_files/f1/a.pdf'') ''llmops-bucket''
       ''u1/source_files/f1/a.pdf''
       = Inl (ClientError ''InternalError'' ''An error occurred (InternalError)'')"
    by (simp_all add: try_get_object_bytes_def ex_flaky_s3_def)
  have b: "try_get_object_bytes (ex_flaky_s3 ''f1/a.pdf'') ''old-bucket'' ''f1/a.pdf''
             = Inl (ClientError ''InternalError'' ''An error occurred (InternalError)'')"
    "try_get_object_bytes (ex_flaky_s3 ''f1/a.pdf'') ''llmops-bucket''
       ''u1/source_files/f1/a.pdf'' = Inr None"
    "try_get_object_bytes (ex_flaky_s3 ''f1/a.pdf'') ''llmops-bucket'' ''uploads/f1/a.pdf''
       = Inr (Some ''%PDF-1.4'')"
    by (simp_all add: try_get_object_bytes_def ex_flaky_s3_def)
  show ?thesis
    by (simp add: resolve_source_bytes_or_404_def sp Let_def)
       (simp add: ex_stale_file_def ex_cfg_def a b)
qed

section \<open>Type detection\<close>

text \<open>
  The WEBP test of the sniffer compares the first twelve bytes with the four bytes
  \<open>RIFF\<close>; only a buffer that is exactly \<open>RIFF\<close> passes it, and such a buffer has
  nothing at positions 8 to 11.  So the sniffer never answers \<open>image/webp\<close>.
\<close>

lemma riff_webp_impossible:
  assumes "take 12 data = ''RIFF''"
  shows "take (12 - 8) (drop 8 data) \<noteq> ''WEBP''"
proof -
  from assms have "length (take 12 data) = 4" by simp
  then have "length data = 4" by (simp add: min_def split: if_splits)
  then have "drop 8 data = []" by simp
  then show ?thesis by simp
qed

lemma sniff_never_webp:
  assumes "magika_identify_bytes env data = None"
  shows "fst (detect_type env (Bytes data)) \<noteq> ''image/webp''"
  using assms riff_webp_impossible [of data]
  by (auto simp: detect_type_def)

text \<open>
  Claim C6 does not hold of WEBP.  With the content classifier failing, a buffer that
  begins with a well-formed WEBP header (\<open>RIFF\<close>, four length bytes, \<open>WEBP\<close>) is
  labelled \<open>application/octet-stream\<close>, while a PNG header is recognised.
\<close>

theorem detect_type_webp_unrecognised:
  "magika_identify_bytes ex_env ex_webp = None
 \<and> take 4 ex_webp = ''RIFF'' \<and> take 4 (drop 8 ex_webp) = ''WEBP''
 \<and> detect_type ex_env (Bytes ex_webp) = (''application/octet-stream'', None, ''sniff'')
 \<and> detect_type ex_env (Bytes ex_png) = (''image/png'', None, ''sniff'')"
  by (simp add: detect_type_def ex_env_def ex_webp_def ex_png_def)

section \<open>PDF in, PDF out\<close>

text \<open>
  Claim C7.  When the return mode is \<open>PDF_BYTES\<close> and the document is in the PDF
  family (by its Magika label, its MIME type or its extension), \<open>load\<close> returns the
  bytes it was given; for a path it returns what reading that file gives.  Nothing is
  rendered or encoded on the way.
\<close>

theorem pdf_passthrough:
  assumes "return_mode options = ''PDF_BYTES''" and "is_pdf (load_prepare env doc)"
  shows "load env doc options =
           (case doc of
              Bytes data \<Rightarrow> Inr (Blob data)
            | Path p \<Rightarrow>
                (case read_file env (abspath env p) of
                   Inl e \<Rightarrow> Inl e
                 | Inr b \<Rightarrow> Inr (Blob b)))"
proof (cases doc)
  case (Path p)
  then have "data_bytes (load_prepare env doc) = None"
    "src_path (load_prepare env doc) = abspath env p"
    by (simp_all add: load_prepare_def Let_def split: prod.splits)
  with assms Path show ?thesis
    by (simp add: load_def load_pdf_direct_def Let_def)
next
  case (Bytes data)
  then have "data_bytes (load_prepare env doc) = Some data"
    by (simp add: load_prepare_def Let_def split: prod.splits)
  with assms Bytes show ?thesis
    by (simp add: load_def load_pdf_direct_def Let_def)
qed

text \<open>Two ways into the PDF family: the sniffed header and the Magika label.\<close>

lemma sniffed_pdf_is_pdf:
  "magika_identify_bytes env data = None \<Longrightarrow> take 4 data = ''%PDF'' \<Longrightarrow>
   is_pdf (load_prepare env (Bytes data))"
  by (simp add: is_pdf_def load_prepare_def detect_type_def Let_def)

lemma magika_pdf_is_pdf:
  "magika_identify_bytes env data = Some ''pdf'' \<Longrightarrow> is_pdf (load_prepare env (Bytes data))"
  by (simp add: is_pdf_def load_prepare_def detect_type_def Let_def)

text \<open>
  Bytes with a PDF header, and a path with the extension \<open>.PDF\<close>, both with failing
  classifiers.
\<close>

theorem pdf_passthrough_witness:
  "return_mode (LoadOptions_default\<lparr>return_mode := ''PDF_BYTES''\<rparr>) = ''PDF_BYTES''
 \<and> is_pdf (load_prepare ex_env (Bytes ''%PDF-1.4 example''))
 \<and> load ex_env (Bytes ''%PDF-1.4 example'') (LoadOptions_default\<lparr>return_mode := ''PDF_BYTES''\<rparr>)
      = Inr (Blob ''%PDF-1.4 example'')
 \<and> is_pdf (load_prepare ex_env (Path ''/data/report.PDF''))
 \<and> load ex_env (Path ''/data/report.PDF'') (LoadOptions_default\<lparr>return_mode := ''PDF_BYTES''\<rparr>)
      = Inr (Blob ''%PDF-1.7 from disk'')"
proof -
  have m: "return_mode (LoadOptions_default\<lparr>return_mode := ''PDF_BYTES''\<rparr>) = ''PDF_BYTES''"
    by simp
  have a: "is_pdf (load_prepare ex_env (Bytes ''%PDF-1.4 example''))"
    by (rule sniffed_pdf_is_pdf) (simp_all add: ex_env_def)
  have b: "is_pdf (load_prepare ex_env (Path ''/data/report.PDF''))"
    by (simp add: is_pdf_def load_prepare_def detect_type_def ex_env_def Let_def ext_lower_def
          splitext_def lower_def lower_char_def)
  have r: "read_file ex_env (abspath ex_env ''/data/report.PDF'') = Inr ''%PDF-1.7 from disk''"
    by (simp add: ex_env_def)
  show ?thesis
    using pdf_passthrough [OF m a] pdf_passthrough [OF m b] m a b r by simp
qed

section \<open>The output assembler\<close>

lemma images_to_bytes_Inr:
  "images_to_bytes env images fmt = Inr out \<longleftrightarrow>
   list_all2 (\<lambda>im b. pil_encode env (to_save env fmt im) (upper fmt) = Inr b) images out"
proof (induction images arbitrary: out)
  case Nil
  then show ?case by auto
next
  case (Cons im images)
  show ?case
    by (auto simp: list_all2_Cons1 Cons.IH [symmetric] split: sum.splits)
qed

lemma zip_entries_Inr:
  "zip_entries env fmt fprefix hint i images = Inr entries \<longleftrightarrow>
   length entries = length images \<and>
   (\<forall>j < length images.
      fst (entries ! j) = zip_entry_name fmt fprefix hint (i + j) \<and>
      pil_encode env (to_save env fmt (images ! j)) (upper fmt) = Inr (snd (entries ! j)))"
proof (induction images arbitrary: entries i)
  case Nil
  then show ?case by auto
next
  case (Cons im images)
  show ?case
  proof (cases entries)
    case Nil
    then show ?thesis by (auto split: sum.splits)
  next
    case (Cons en entries')
    then show ?thesis
      using Cons.IH [of "Suc i" entries']
      by (cases en) (auto split: sum.splits simp: All_less_Suc2)
  qed
qed

lemma save_images_Inr:
  "save_images env out_dir fprefix fmt i images = Inr paths \<longleftrightarrow>
   length paths = length images \<and>
   (\<forall>j < length images.
      paths ! j = path_join out_dir (fprefix @ ''_'' @ format_04d (i + j) @ ''.'' @ lower fmt) \<and>
      pil_save_file env (to_save env fmt (images ! j)) (paths ! j) (upper fmt) = Inr ())"
proof (induction images arbitrary: paths i)
  case Nil
  then show ?case by auto
next
  case (Cons im images)
  show ?case
  proof (cases paths)
    case Nil
    then show ?thesis by (auto simp: Let_def split: sum.splits)
  next
    case (Cons p paths')
    then show ?thesis
      using Cons.IH [of "Suc i" paths']
      by (auto simp: Let_def All_less_Suc2 split: sum.splits)
  qed
qed

lemma pdf_pages_length:
  "pdf_pages env d images = Inr pages \<Longrightarrow>
   length pages = length images \<and>
   (\<forall>j < length images.
      pil_encode env
        (if im_mode (images ! j) \<notin> set [''RGB'', ''L'']
         then pil_convert_rgb env (images ! j) else images ! j) ''PNG''
        = Inr (snd (snd (pages ! j))))"
proof (induction images arbitrary: pages)
  case Nil
  then show ?case by auto
next
  case (Cons im images)
  from Cons.prems obtain pg pages' where p: "pages = pg # pages'"
    and rest: "pdf_pages env d images = Inr pages'"
    and enc: "pil_encode env
        (if im_mode im \<notin> set [''RGB'', ''L''] then pil_convert_rgb env im else im) ''PNG''
        = Inr (snd (snd pg))"
    by (auto simp: Let_def split: sum.splits prod.splits if_splits)
  from Cons.IH [OF rest] p enc show ?case
    by (auto simp: All_less_Suc2)
qed

lemma save_to_dir_Inr:
  "save_to_dir env options images = Inr paths \<longleftrightarrow>
   os_makedirs env (options_out_dir env options) = Inr () \<and>
   length paths = length images \<and>
   (\<forall>j < length images.
      paths ! j = path_join (options_out_dir env options)
        (filename_prefix options @ ''_'' @ format_04d (1 + j) @ ''.''
           @ lower (image_format options)) \<and>
      pil_save_file env (to_save env (image_format options) (images ! j)) (paths ! j)
        (upper (image_format options)) = Inr ())"
  by (auto simp: save_to_dir_def Let_def save_images_Inr split: sum.splits)

lemma load_return_saved:
  assumes "load_return env options images = Inr res"
    and "save options \<or> return_mode options = ''PATHS''"
  shows "\<exists>paths. save_to_dir env options images = Inr paths \<and>
           (return_mode options = ''PATHS'' \<longrightarrow> res = Saved paths)"
  using assms
  by (auto simp: load_return_def split: sum.splits if_splits)

text \<open>
  Claim C9, as the claim states it, fails on the empty page sequence: the assembler has
  no check for it.  Without pages it returns the empty list of images, of encoded
  blocks and of paths, and an archive without entries; and a PDF that PyMuPDF opens
  with no page goes through \<open>load\<close> to an empty list of blocks.
\<close>

theorem assembler_empty_counterexample:
  "load_return ex_env LoadOptions_default [] = Inr (Images [])
 \<and> load_return ex_env (LoadOptions_default\<lparr>return_mode := ''BYTES''\<rparr>) [] = Inr (Encoded [])
 \<and> load_return ex_env (LoadOptions_default\<lparr>return_mode := ''PATHS''\<rparr>) [] = Inr (Saved [])
 \<and> load_return ex_env (LoadOptions_default\<lparr>return_mode := ''ZIP_BYTES''\<rparr>) []
      = Inr (Blob (zip_archive ex_env []))
 \<and> load (ex_env\<lparr>fitz_page_count := (\<lambda>p. Inr 0)\<rparr>) (Bytes ''%PDF-1.4 no pages'')
      (LoadOptions_default\<lparr>return_mode := ''BYTES''\<rparr>) = Inr (Encoded [])"
proof -
  have 1: "load_return ex_env LoadOptions_default [] = Inr (Images [])"
    by (simp add: load_return_def LoadOptions_default_def)
  have 2: "load_return ex_env (LoadOptions_default\<lparr>return_mode := ''BYTES''\<rparr>) []
             = Inr (Encoded [])"
    by (simp add: load_return_def LoadOptions_default_def)
  have 3: "load_return ex_env (LoadOptions_default\<lparr>return_mode := ''PATHS''\<rparr>) []
             = Inr (Saved [])"
    by (simp add: load_return_def LoadOptions_default_def save_to_dir_def ex_env_def Let_def)
  have 4: "load_return ex_env (LoadOptions_default\<lparr>return_mode := ''ZIP_BYTES''\<rparr>) []
             = Inr (Blob (zip_archive ex_env []))"
    by (simp add: load_return_def LoadOptions_default_def images_to_zip_bytes_def)
  let ?env = "ex_env\<lparr>fitz_page_count := (\<lambda>p. Inr 0)\<rparr>"
  have p: "is_pdf (load_prepare ?env (Bytes ''%PDF-1.4 no pages''))"
    by (rule sniffed_pdf_is_pdf) (simp_all add: ex_env_def)
  have i: "load_images ?env (LoadOptions_default\<lparr>return_mode := ''BYTES''\<rparr>)
             (load_prepare ?env (Bytes ''%PDF-1.4 no pages'')) = Inr []"
    using p by (simp add: load_images_def open_pdf_as_images_def split: option.splits)
  have 5: "load ?env (Bytes ''%PDF-1.4 no pages'')
             (LoadOptions_default\<lparr>return_mode := ''BYTES''\<rparr>) = Inr (Encoded [])"
    by (simp add: load_def i Let_def)
       (simp add: load_return_def LoadOptions_default_def)
  from 1 2 3 4 5 show ?thesis by simp
qed

text \<open>
  Claim C9, amended.  Whenever the assembler returns, its result has one element for
  each input page, in the order of the pages: the images themselves; the encoding of
  each page; the path of each page, numbered from 1 under the output directory, the
  page having been written to that path; the archive of one entry for each page,
  numbered from 1; the PDF of one page for each image.  When saving is asked for, every
  page has been written in this way before anything is returned, in every return mode.
  A page that cannot be encoded or cannot be written is not skipped: the call raises.
  An empty page sequence is no error: with no saving asked for, it gives the empty list
  of images, the empty list of encoded blocks and the archive without entries.
\<close>

theorem assembler_keeps_pages:
  "(\<forall>res. load_return env options images = Inr res \<longrightarrow>
      (return_mode options = ''PIL'' \<longrightarrow> res = Images images)
    \<and> (return_mode options = ''BYTES'' \<longrightarrow>
         (\<exists>out. res = Encoded out \<and>
            list_all2 (\<lambda>im b. pil_encode env (to_save env (image_format options) im)
                                 (upper (image_format options)) = Inr b) images out))
    \<and> (save options \<or> return_mode options = ''PATHS'' \<longrightarrow>
         (\<exists>paths. (return_mode options = ''PATHS'' \<longrightarrow> res = Saved paths) \<and>
            os_makedirs env (options_out_dir env options) = Inr () \<and>
            length paths = length images \<and>
            (\<forall>j < length images.
               paths ! j = path_join (options_out_dir env options)
                 (filename_prefix options @ ''_'' @ format_04d (1 + j) @ ''.''
                    @ lower (image_format options)) \<and>
               pil_save_file env (to_save env (image_format options) (images ! j)) (paths ! j)
                 (upper (image_format options)) = Inr ())))
    \<and> (return_mode options = ''ZIP_BYTES'' \<longrightarrow>
         (\<exists>entries. res = Blob (zip_archive env entries) \<and> length entries = length images \<and>
            (\<forall>j < length images.
               fst (entries ! j) = zip_entry_name (image_format options)
                 (filename_prefix options) (zip_name_in_zip options) (1 + j) \<and>
               pil_encode env (to_save env (image_format options) (images ! j))
                 (upper (image_format options)) = Inr (snd (entries ! j)))))
    \<and> (return_mode options = ''PDF_BYTES'' \<longrightarrow>
         (\<exists>pages b. res = Blob b \<and> fitz_tobytes env pages = Inr b \<and>
            length pages = length images \<and>
            (\<forall>j < length images.
               pil_encode env
                 (if im_mode (images ! j) \<notin> set [''RGB'', ''L'']
                  then pil_convert_rgb env (images ! j) else images ! j) ''PNG''
                 = Inr (snd (snd (pages ! j)))))))
 \<and> ((return_mode options = ''BYTES'' \<or> return_mode options = ''ZIP_BYTES'') \<and>
     (\<exists>j < length images. \<exists>e.
        pil_encode env (to_save env (image_format options) (images ! j))
          (upper (image_format options)) = Inl e) \<longrightarrow>
     (\<exists>e. load_return env options images = Inl e))
 \<and> ((save options \<or> return_mode options = ''PATHS'') \<and>
     (\<exists>j < length images. \<exists>e.
        pil_save_file env (to_save env (image_format options) (images ! j))
          (path_join (options_out_dir env options)
             (filename_prefix options @ ''_'' @ format_04d (1 + j) @ ''.''
                @ lower (image_format options)))
          (upper (image_format options)) = Inl e) \<longrightarrow>
     (\<exists>e. load_return env options images = Inl e))
 \<and> (return_mode options = ''PDF_BYTES'' \<and>
     (\<exists>j < length images. \<exists>e.
        pil_encode env
          (if im_mode (images ! j) \<notin> set [''RGB'', ''L'']
           then pil_convert_rgb env (images ! j) else images ! j) ''PNG'' = Inl e) \<longrightarrow>
     (\<exists>e. load_return env options images = Inl e))
 \<and> (\<not> save options \<longrightarrow>
      (return_mode options = ''PIL'' \<longrightarrow> load_return env options [] = Inr (Images []))
    \<and> (return_mode options = ''BYTES'' \<longrightarrow> load_return env options [] = Inr (Encoded []))
    \<and> (return_mode options = ''ZIP_BYTES'' \<longrightarrow>
         load_return env options [] = Inr (Blob (zip_archive env []))))"
proof -
  have bytes: "\<exists>out. res = Encoded out \<and>
            list_all2 (\<lambda>im b. pil_encode env (to_save env (image_format options) im)
                                 (upper (image_format options)) = Inr b) images out"
    if "load_return env options images = Inr res" "return_mode options = ''BYTES''" for res
  proof -
    from that obtain out where "res = Encoded out"
      "images_to_bytes env images (image_format options) = Inr out"
      by (auto simp: load_return_def split: sum.splits if_splits)
    then show ?thesis by (auto simp: images_to_bytes_Inr)
  qed
  have saved: "\<exists>paths. (return_mode options = ''PATHS'' \<longrightarrow> res = Saved paths) \<and>
            os_makedirs env (options_out_dir env options) = Inr () \<and>
            length paths = length images \<and>
            (\<forall>j < length images.
               paths ! j = path_join (options_out_dir env options)
                 (filename_prefix options @ ''_'' @ format_04d (1 + j) @ ''.''
                    @ lower (image_format options)) \<and>
               pil_save_file env (to_save env (image_format options) (images ! j)) (paths ! j)
                 (upper (image_format options)) = Inr ())"
    if "load_return env options images = Inr res"
      "save options \<or> return_mode options = ''PATHS''" for res
  proof -
    from load_return_saved [OF that] obtain paths where
      s: "save_to_dir env options images = Inr paths"
      and r: "return_mode options = ''PATHS'' \<longrightarrow> res = Saved paths"
      by blast
    from s [unfolded save_to_dir_Inr] r show ?thesis by blast
  qed
  have zip: "\<exists>entries. res = Blob (zip_archive env entries) \<and> length entries = length images \<and>
            (\<forall>j < length images.
               fst (entries ! j) = zip_entry_name (image_format options)
                 (filename_prefix options) (zip_name_in_zip options) (1 + j) \<and>
               pil_encode env (to_save env (image_format options) (images ! j))
                 (upper (image_format options)) = Inr (snd (entries ! j)))"
    if "load_return env options images = Inr res" "return_mode options = ''ZIP_BYTES''" for res
  proof -
    from that obtain entries where "res = Blob (zip_archive env entries)"
      "zip_entries env (image_format options) (filename_prefix options)
         (zip_name_in_zip options) 1 images = Inr entries"
      by (auto simp: load_return_def images_to_zip_bytes_def split: sum.splits if_splits)
    then show ?thesis by (auto simp: zip_entries_Inr)
  qed
  have pdf: "\<exists>pages b. res = Blob b \<and> fitz_tobytes env pages = Inr b \<and>
            length pages = length images \<and>
            (\<forall>j < length images.
               pil_encode env
                 (if im_mode (images ! j) \<notin> set [''RGB'', ''L'']
                  then pil_convert_rgb env (images ! j) else images ! j) ''PNG''
                 = Inr (snd (snd (pages ! j))))"
    if "load_return env options images = Inr res" "return_mode options = ''PDF_BYTES''" for res
  proof -
    from that obtain pages b where r: "res = Blob b" "fitz_tobytes env pages = Inr b"
      and p: "pdf_pages env (dpi options) images = Inr pages"
      by (auto simp: load_return_def images_to_pdf_bytes_def split: sum.splits if_splits)
    from pdf_pages_length [OF p] r show ?thesis by blast
  qed
  have pil: "res = Images images"
    if "load_return env options images = Inr res" "return_mode options = ''PIL''" for res
    using that by (auto simp: load_return_def split: sum.splits if_splits)
  have raises: "\<exists>e. load_return env options images = Inl e"
    if "\<And>res. load_return env options images \<noteq> Inr res"
    using that by (cases "load_return env options images") auto
  have r1: "\<exists>e. load_return env options images = Inl e"
    if m: "return_mode options = ''BYTES'' \<or> return_mode options = ''ZIP_BYTES''"
      and f: "\<exists>j < length images. \<exists>e.
        pil_encode env (to_save env (image_format options) (images ! j))
          (upper (image_format options)) = Inl e"
  proof (rule raises)
    fix res
    show "load_return env options images \<noteq> Inr res"
    proof
      assume a: "load_return env options images = Inr res"
      from f obtain j e where j: "j < length images"
        and e: "pil_encode env (to_save env (image_format options) (images ! j))
                  (upper (image_format options)) = Inl e"
        by blast
      from m show False
      proof
        assume "return_mode options = ''BYTES''"
        from bytes [OF a this] obtain out where
          "list_all2 (\<lambda>im b. pil_encode env (to_save env (image_format options) im)
                                 (upper (image_format options)) = Inr b) images out"
          by blast
        from list_all2_nthD [OF this j] e show False by simp
      next
        assume "return_mode options = ''ZIP_BYTES''"
        from zip [OF a this] j e show False by auto
      qed
    qed
  qed
  have r2: "\<exists>e. load_return env options images = Inl e"
    if m: "save options \<or> return_mode options = ''PATHS''"
      and f: "\<exists>j < length images. \<exists>e.
        pil_save_file env (to_save env (image_format options) (images ! j))
          (path_join (options_out_dir env options)
             (filename_prefix options @ ''_'' @ format_04d (1 + j) @ ''.''
                @ lower (image_format options)))
          (upper (image_format options)) = Inl e"
  proof (rule raises)
    fix res
    show "load_return env options images \<noteq> Inr res"
    proof
      assume a: "load_return env options images = Inr res"
      from saved [OF a m] f show False by auto
    qed
  qed
  have r3: "\<exists>e. load_return env options images = Inl e"
    if m: "return_mode options = ''PDF_BYTES''"
      and f: "\<exists>j < length images. \<exists>e.
        pil_encode env
          (if im_mode (images ! j) \<notin> set [''RGB'', ''L'']
           then pil_convert_rgb env (images ! j) else images ! j) ''PNG'' = Inl e"
  proof (rule raises)
    fix res
    show "load_return env options images \<noteq> Inr res"
    proof
      assume a: "load_return env options images = Inr res"
      from pdf [OF a m] f show False by auto
    qed
  qed
  have e1: "load_return env options [] = Inr (Images [])"
    if "\<not> save options" "return_mode options = ''PIL''"
    using that by (simp add: load_return_def)
  have e2: "load_return env options [] = Inr (Encoded [])"
    if "\<not> save options" "return_mode options = ''BYTES''"
    using that by (simp add: load_return_def)
  have e3: "load_return env options [] = Inr (Blob (zip_archive env []))"
    if "\<not> save options" "return_mode options = ''ZIP_BYTES''"
    using that by (simp add: load_return_def images_to_zip_bytes_def)
  show ?thesis
    apply (intro conjI allI impI)
    subgoal for res by (rule pil)
    subgoal for res by (rule bytes)
    subgoal for res by (rule saved)
    subgoal for res by (rule zip)
    subgoal for res by (rule pdf)
    subgoal by (rule r1) blast+
    subgoal by (rule r2) blast+
    subgoal by (rule r3) blast+
    subgoal by (rule e1)
    subgoal by (rule e2)
    subgoal by (rule e3)
    done
qed

lemma ex_names:
  "upper ''PNG'' = ''PNG''" "lower ''PNG'' = ''png''"
  "format_04d (Suc 0) = ''0001''" "format_04d (Suc (Suc 0)) = ''0002''"
  by code_simp+

text \<open>
  Two pages \<open>p1\<close>, \<open>p2\<close> through each return mode of the example libraries, and no
  page through the first mode; the two pages with saving asked for; and the two pages
  over the full disk, where the second page cannot be written.
\<close>

theorem assembler_keeps_pages_witness:
  "load_return ex_env LoadOptions_default [ex_page ''p1'', ex_page ''p2'']
     = Inr (Images [ex_page ''p1'', ex_page ''p2''])
 \<and> load_return ex_env (LoadOptions_default\<lparr>return_mode := ''BYTES''\<rparr>)
      [ex_page ''p1'', ex_page ''p2''] = Inr (Encoded [''PNGp1'', ''PNGp2''])
 \<and> list_all2 (\<lambda>im b. pil_encode ex_env (to_save ex_env ''PNG'' im) (upper ''PNG'') = Inr b)
      [ex_page ''p1'', ex_page ''p2''] [''PNGp1'', ''PNGp2'']
 \<and> load_return ex_env (LoadOptions_default\<lparr>return_mode := ''PATHS''\<rparr>)
      [ex_page ''p1'', ex_page ''p2'']
      = Inr (Saved [''/srv/doc_images/page_0001.png'', ''/srv/doc_images/page_0002.png''])
 \<and> os_makedirs ex_env ''/srv/doc_images'' = Inr ()
 \<and> pil_save_file ex_env (ex_page ''p1'') ''/srv/doc_images/page_0001.png'' ''PNG'' = Inr ()
 \<and> pil_save_file ex_env (ex_page ''p2'') ''/srv/doc_images/page_0002.png'' ''PNG'' = Inr ()
 \<and> load_return ex_env (LoadOptions_default\<lparr>save := True\<rparr>) [ex_page ''p1'', ex_page ''p2'']
     = Inr (Images [ex_page ''p1'', ex_page ''p2''])
 \<and> load_return ex_env (LoadOptions_default\<lparr>return_mode := ''ZIP_BYTES''\<rparr>)
      [ex_page ''p1'', ex_page ''p2'']
      = Inr (Blob (zip_archive ex_env
                     [(''page_0001.png'', ''PNGp1''), (''page_0002.png'', ''PNGp2'')]))
 \<and> load_return ex_env (LoadOptions_default\<lparr>return_mode := ''PDF_BYTES''\<rparr>)
      [ex_page ''p1'', ex_page ''p2''] = Inr (Blob ''%PDF-1.7 synthesized'')
 \<and> (\<exists>pages. fitz_tobytes ex_env pages = Inr ''%PDF-1.7 synthesized'' \<and> length pages = 2)
 \<and> pil_save_file ex_disk_full (ex_page ''p2'') ''/srv/doc_images/page_0002.png'' ''PNG''
      = Inl (OtherException ''OSError'' ''No space left on device'')
 \<and> (\<exists>e. load_return ex_disk_full (LoadOptions_default\<lparr>return_mode := ''PATHS''\<rparr>)
           [ex_page ''p1'', ex_page ''p2''] = Inl e)
 \<and> (\<exists>e. load_return ex_disk_full (LoadOptions_default\<lparr>save := True\<rparr>)
           [ex_page ''p1'', ex_page ''p2''] = Inl e)
 \<and> \<not> save LoadOptions_default
 \<and> load_return ex_env LoadOptions_default [] = Inr (Images [])"
proof -
  let ?imgs = "[ex_page ''p1'', ex_page ''p2'']"
  have enc: "pil_encode ex_env (to_save ex_env ''PNG'' (ex_page d)) ''PNG'' = Inr (''PNG'' @ d)"
    for d by (simp add: ex_env_def to_save_def ex_page_def ex_names)
  have ts: "to_save env ''PNG'' im = im" for env im
    by (simp add: to_save_def ex_names)
  have o: "image_format LoadOptions_default = ''PNG''" "filename_prefix LoadOptions_default = ''page''"
    "\<not> save LoadOptions_default" "return_mode LoadOptions_default = ''PIL''"
    "zip_name_in_zip LoadOptions_default = None" "output_dir LoadOptions_default = None"
    "dpi LoadOptions_default = 200"
    by (simp_all add: LoadOptions_default_def)
  have 1: "load_return ex_env LoadOptions_default ?imgs = Inr (Images ?imgs)"
    by (simp add: load_return_def o)
  have 2: "load_return ex_env (LoadOptions_default\<lparr>return_mode := ''BYTES''\<rparr>) ?imgs
             = Inr (Encoded [''PNGp1'', ''PNGp2''])"
    by (simp add: load_return_def o enc ex_names)
  have md: "os_makedirs ex_env d = Inr ()" "pil_save_file ex_env im fp f = Inr ()"
    "getcwd ex_env = ''/srv''" "getcwd ex_disk_full = ''/srv''" for d im fp f
    by (simp_all add: ex_env_def ex_disk_full_def)
  have od: "options_out_dir ex_env (LoadOptions_default\<lparr>return_mode := ''PATHS''\<rparr>)
              = ''/srv/doc_images''"
    "options_out_dir ex_disk_full (LoadOptions_default\<lparr>return_mode := ''PATHS''\<rparr>)
              = ''/srv/doc_images''"
    "options_out_dir ex_env (LoadOptions_default\<lparr>save := True\<rparr>) = ''/srv/doc_images''"
    "options_out_dir ex_disk_full (LoadOptions_default\<lparr>save := True\<rparr>) = ''/srv/doc_images''"
    by (simp_all add: options_out_dir_def o md path_join_def)
  have 3: "load_return ex_env (LoadOptions_default\<lparr>return_mode := ''PATHS''\<rparr>) ?imgs
      = Inr (Saved [''/srv/doc_images/page_0001.png'', ''/srv/doc_images/page_0002.png''])"
    by (simp add: load_return_def o save_to_dir_def od md path_join_def ex_names Let_def)
  have sv: "load_return ex_env (LoadOptions_default\<lparr>save := True\<rparr>) ?imgs = Inr (Images ?imgs)"
    by (simp add: load_return_def o save_to_dir_def od md path_join_def ex_names Let_def)
  have 4: "load_return ex_env (LoadOptions_default\<lparr>return_mode := ''ZIP_BYTES''\<rparr>) ?imgs
      = Inr (Blob (zip_archive ex_env
                     [(''page_0001.png'', ''PNGp1''), (''page_0002.png'', ''PNGp2'')]))"
    by (simp add: load_return_def o images_to_zip_bytes_def enc ex_names zip_entry_name_def)
  have tb: "fitz_tobytes ex_env (pg # pgs) = Inr ''%PDF-1.7 synthesized''" for pg pgs
    by (simp add: ex_env_def)
  have encp: "pil_encode ex_env (ex_page d) ''PNG'' = Inr (''PNG'' @ d)" for d
    by (simp add: ex_env_def ex_page_def)
  have f200: "float_of_int 200 = 200" by code_simp
  have fd: "float_truediv x (float_of_int 200) \<noteq> Inl e" for x e
    by (simp add: float_truediv_def f200)
  have pg: "im_mode (ex_page d) = ''RGB''" "im_size (ex_page d) = (640, 480)" for d
    by (simp_all add: ex_page_def)
  have 5: "load_return ex_env (LoadOptions_default\<lparr>return_mode := ''PDF_BYTES''\<rparr>) ?imgs
      = Inr (Blob ''%PDF-1.7 synthesized'')"
    using fd
    by (auto simp: load_return_def o images_to_pdf_bytes_def encp tb pg Let_def
             split: sum.splits)
  have 6: "load_return ex_env LoadOptions_default [] = Inr (Images [])"
    by (simp add: load_return_def o)
  have full: "pil_save_file ex_disk_full (ex_page ''p2'') ''/srv/doc_images/page_0002.png'' ''PNG''
      = Inl (OtherException ''OSError'' ''No space left on device'')"
    by (simp add: ex_disk_full_def)
  note t = assembler_keeps_pages [of ex_env _ ?imgs]
  note tf = assembler_keeps_pages [of ex_disk_full _ ?imgs]
  have l: "list_all2 (\<lambda>im b. pil_encode ex_env (to_save ex_env ''PNG'' im) (upper ''PNG'') = Inr b)
             ?imgs [''PNGp1'', ''PNGp2'']"
    using t [of "LoadOptions_default\<lparr>return_mode := ''BYTES''\<rparr>"] 2 o by auto
  have w: "os_makedirs ex_env ''/srv/doc_images'' = Inr ()
     \<and> pil_save_file ex_env (ex_page ''p1'') ''/srv/doc_images/page_0001.png'' ''PNG'' = Inr ()
     \<and> pil_save_file ex_env (ex_page ''p2'') ''/srv/doc_images/page_0002.png'' ''PNG'' = Inr ()"
  proof -
    let ?op = "LoadOptions_default\<lparr>return_mode := ''PATHS''\<rparr>"
    have rm: "return_mode ?op = ''PATHS''" by simp
    have "\<exists>paths.
            (return_mode ?op = ''PATHS'' \<longrightarrow>
               Saved [''/srv/doc_images/page_0001.png'', ''/srv/doc_images/page_0002.png'']
                 = Saved paths) \<and>
            os_makedirs ex_env (options_out_dir ex_env ?op) = Inr () \<and>
            length paths = length ?imgs \<and>
            (\<forall>j < length ?imgs.
               paths ! j = path_join (options_out_dir ex_env ?op)
                 (filename_prefix ?op @ ''_'' @ format_04d (1 + j) @ ''.''
                    @ lower (image_format ?op)) \<and>
               pil_save_file ex_env (to_save ex_env (image_format ?op) (?imgs ! j)) (paths ! j)
                 (upper (image_format ?op)) = Inr ())"
      using t [of ?op] 3 rm by blast
    then obtain paths where
      q1: "return_mode ?op = ''PATHS'' \<longrightarrow>
               Saved [''/srv/doc_images/page_0001.png'', ''/srv/doc_images/page_0002.png'']
                 = Saved paths"
      and m: "os_makedirs ex_env (options_out_dir ex_env ?op) = Inr ()"
      and a: "\<forall>j < length ?imgs.
               pil_save_file ex_env (to_save ex_env (image_format ?op) (?imgs ! j)) (paths ! j)
                 (upper (image_format ?op)) = Inr ()"
      by blast
    from q1 rm have p: "paths = [''/srv/doc_images/page_0001.png'', ''/srv/doc_images/page_0002.png'']"
      by simp
    have a0: "pil_save_file ex_env (to_save ex_env (image_format ?op) (?imgs ! 0)) (paths ! 0)
                 (upper (image_format ?op)) = Inr ()"
      using a [rule_format, of 0] by simp
    have a1: "pil_save_file ex_env (to_save ex_env (image_format ?op) (?imgs ! 1)) (paths ! 1)
                 (upper (image_format ?op)) = Inr ()"
      using a [rule_format, of 1] by simp
    from a0 a1 m show ?thesis
      by (simp add: p o od ts ex_names)
  qed
  have p: "\<exists>pages. fitz_tobytes ex_env pages = Inr ''%PDF-1.7 synthesized'' \<and> length pages = 2"
    using t [of "LoadOptions_default\<lparr>return_mode := ''PDF_BYTES''\<rparr>"] 5 o by auto
  have fj: "\<exists>j < length ?imgs. \<exists>e.
        pil_save_file ex_disk_full (to_save ex_disk_full ''PNG'' (?imgs ! j))
          (path_join ''/srv/doc_images'' (''page'' @ ''_'' @ format_04d (1 + j) @ ''.'' @ lower ''PNG''))
          (upper ''PNG'') = Inl e"
    by (rule exI [of _ 1]) (simp add: ts ex_names path_join_def full)
  have x1: "\<exists>e. load_return ex_disk_full (LoadOptions_default\<lparr>return_mode := ''PATHS''\<rparr>)
           ?imgs = Inl e"
    using tf [of "LoadOptions_default\<lparr>return_mode := ''PATHS''\<rparr>"] fj
    by (simp add: o od)
  have x2: "\<exists>e. load_return ex_disk_full (LoadOptions_default\<lparr>save := True\<rparr>) ?imgs = Inl e"
    using tf [of "LoadOptions_default\<lparr>save := True\<rparr>"] fj
    by (simp add: o od)
  from 1 2 3 sv 4 5 6 l w p full x1 x2 o show ?thesis by simp
qed

section \<open>Facts about binary64 rounding\<close>

text \<open>Rounding to an integer moves a number by at most one half and keeps integers.\<close>

lemma round_half_even_error: "\<bar>of_int (round_half_even y) - y\<bar> \<le> 1 / 2"
proof -
  have "of_int \<lfloor>y\<rfloor> \<le> y" "y < of_int \<lfloor>y\<rfloor> + 1" by linarith+
  then show ?thesis
    by (auto simp: round_half_even_def Let_def)
qed

lemma round_half_even_of_int [simp]: "round_half_even (of_int z) = z"
  by (simp add: round_half_even_def)

text \<open>The exponent found by \<open>floor_log2\<close> brackets the number between two powers of two.\<close>

lemma bitlen_powi_bounds:
  assumes "0 < a"
  shows "(2::rat) powi (bitlen a - 1) \<le> of_int a" and "of_int a < (2::rat) powi (bitlen a)"
proof -
  from bitlen_bounds [OF assms]
  have 1: "2 ^ nat (bitlen a - 1) \<le> a" and 2: "a < 2 ^ nat (bitlen a)" by auto
  have p: "0 < bitlen a" using assms bitlen_eq_zero_iff [of a] bitlen_nonneg [of a] by linarith
  have "(of_int (2 ^ nat (bitlen a - 1)) :: rat) \<le> of_int a" using 1 by (rule of_int_le_iff [THEN iffD2])
  then show "(2::rat) powi (bitlen a - 1) \<le> of_int a"
    using p by (simp add: power_int_def)
  have "(of_int a :: rat) < of_int (2 ^ nat (bitlen a))" using 2 by (rule of_int_less_iff [THEN iffD2])
  then show "of_int a < (2::rat) powi (bitlen a)"
    using p by (simp add: power_int_def)
qed

lemma floor_log2_bounds:
  assumes "0 < q"
  shows "(2::rat) powi (floor_log2 q) \<le> q" and "q < (2::rat) powi (floor_log2 q + 1)"
proof -
  obtain a b where ab: "quotient_of q = (a, b)" by (cases "quotient_of q")
  then have b: "0 < b" using quotient_of_denom_pos by blast
  have q: "q = of_int a / of_int b" using ab by (rule quotient_of_div)
  have a: "0 < a" using assms b q by (simp add: zero_less_divide_iff)
  let ?k = "bitlen a - bitlen b"
  note A = bitlen_powi_bounds [OF a] and B = bitlen_powi_bounds [OF b]
  have bpos: "(0::rat) < of_int b" using b by simp
  have up: "q < (2::rat) powi (?k + 1)"
  proof -
    have "q < (2::rat) powi (bitlen a) / of_int b"
      unfolding q using A(2) bpos by (simp add: divide_strict_right_mono)
    also have "\<dots> \<le> (2::rat) powi (bitlen a) / 2 powi (bitlen b - 1)"
      using B(1) bpos by (intro divide_left_mono) (auto intro!: mult_pos_pos)
    also have "\<dots> = (2::rat) powi (bitlen a - (bitlen b - 1))"
      by (simp add: power_int_diff)
    finally show ?thesis by (simp add: algebra_simps)
  qed
  have lo: "(2::rat) powi (?k - 1) \<le> q"
  proof -
    have "(2::rat) powi (?k - 1) = 2 powi (bitlen a - 1) / 2 powi (bitlen b)"
      by (simp add: power_int_diff [symmetric] algebra_simps)
    also have "\<dots> \<le> of_int a / 2 powi (bitlen b)"
      using A(1) by (simp add: divide_right_mono)
    also have "\<dots> \<le> of_int a / of_int b"
      using B(2) bpos a by (intro divide_left_mono) (auto intro!: mult_pos_pos)
    finally show ?thesis by (simp add: q)
  qed
  have mono: "(2::rat) powi (?k - 1) \<le> 2 powi ?k" "(2::rat) powi ?k \<le> 2 powi (?k + 1)"
    by (simp_all add: power_int_increasing)
  show "(2::rat) powi (floor_log2 q) \<le> q"
    using lo by (auto simp: floor_log2_def ab Let_def)
  show "q < (2::rat) powi (floor_log2 q + 1)"
    using up by (auto simp: floor_log2_def ab Let_def)
qed

text \<open>
  The relative error of one rounding is at most \<open>2^-53\<close>, a positive number stays
  positive, and the integers below \<open>2^53\<close> are doubles.
\<close>

lemma binary64_error:
  assumes "0 < q"
  shows "\<bar>binary64 q - q\<bar> \<le> q / 2 ^ 53"
proof -
  define e where "e = floor_log2 q - 52"
  define s where "s = (2::rat) powi e"
  have s: "0 < s" by (simp add: s_def)
  have b: "binary64 q = of_int (round_half_even (q / s)) * s"
    using assms by (simp add: binary64_def Let_def e_def s_def)
  have "binary64 q - q = (of_int (round_half_even (q / s)) - q / s) * s"
    using s by (simp add: b algebra_simps)
  then have "\<bar>binary64 q - q\<bar> = \<bar>of_int (round_half_even (q / s)) - q / s\<bar> * s"
    using s by (simp add: abs_mult)
  also have "\<dots> \<le> (1 / 2) * s"
    using round_half_even_error [of "q / s"] s by (intro mult_right_mono) auto
  also have "\<dots> \<le> q / 2 ^ 53"
  proof -
    have "s * 2 ^ 52 = (2::rat) powi (floor_log2 q)"
    proof -
      have "(2::rat) powi (floor_log2 q) = 2 powi (e + 52)" by (simp add: e_def)
      also have "\<dots> = 2 powi e * 2 powi 52" by (simp add: power_int_add)
      finally show ?thesis by (simp add: s_def)
    qed
    with floor_log2_bounds(1) [OF assms] have "s * 2 ^ 52 \<le> q" by simp
    then show ?thesis by (simp add: field_simps)
  qed
  finally show ?thesis .
qed

lemma binary64_pos:
  assumes "0 < q"
  shows "0 < binary64 q"
proof -
  have "q / 2 ^ 53 < q" using assms by (simp add: field_simps)
  with binary64_error [OF assms] show ?thesis by linarith
qed

lemma binary64_of_int:
  assumes "0 < n" and "n < 2 ^ 53"
  shows "binary64 (of_int n) = of_int n"
proof -
  let ?q = "of_int n :: rat"
  have q: "0 < ?q" using assms by simp
  define e where "e = floor_log2 ?q - 52"
  have "(2::rat) powi (floor_log2 ?q) \<le> ?q" using floor_log2_bounds(1) [OF q] .
  also have "\<dots> < 2 ^ 53" using assms(2) by (metis of_int_less_iff of_int_numeral of_int_power)
  also have "\<dots> = (2::rat) powi 53" by simp
  finally have "(2::rat) powi (floor_log2 ?q) < 2 powi 53" .
  then have "floor_log2 ?q < 53"
    by (rule power_int_le_imp_less_exp [rotated]) simp_all
  then have e: "e \<le> 0" by (simp add: e_def)
  have s: "(2::rat) powi e = 1 / of_int (2 ^ nat (- e))"
    using e by (auto simp: power_int_def field_simps)
  have "?q / 2 powi e = of_int (n * 2 ^ nat (- e))"
    by (simp add: s)
  then have "round_half_even (?q / 2 powi e) = n * 2 ^ nat (- e)"
    by (simp only: round_half_even_of_int)
  then have "binary64 ?q = of_int (n * 2 ^ nat (- e)) * 2 powi e"
    using q by (simp add: binary64_def Let_def e_def)
  also have "\<dots> = ?q" by (simp add: s)
  finally show ?thesis .
qed

text \<open>
  The scaled side \<open>int(w * (max_side / float(m)))\<close> against the exact quotient
  \<open>w * max_side / m\<close>, for sides below \<open>2^25\<close>: the two roundings move the product by
  less than \<open>2^-26\<close>, which is less than the distance \<open>1 / m\<close> from the quotient to the
  next integer above it.
\<close>

lemma floor_ratio_gap:
  fixes N m :: int
  assumes "0 < m"
  shows "(of_int N / of_int m :: rat) + 1 / of_int m \<le> of_int \<lfloor>(of_int N / of_int m :: rat)\<rfloor> + 1"
proof -
  have f: "\<lfloor>(of_int N / of_int m :: rat)\<rfloor> = N div m" by (simp add: floor_divide_of_int_eq)
  have lt: "N mod m < m" using assms by simp
  have e: "m * (N div m) + N mod m = N" by simp
  have "N + 1 \<le> m * (N div m) + m" using e lt by linarith
  then have "N + 1 \<le> m * (N div m + 1)" by (simp add: algebra_simps)
  then have "(of_int (N + 1) :: rat) \<le> of_int (m * (N div m + 1))"
    by (rule of_int_le_iff [THEN iffD2])
  then have "(of_int N + 1 :: rat) \<le> of_int m * (of_int (N div m) + 1)" by simp
  then have "(of_int N + 1 :: rat) / of_int m \<le> of_int (N div m) + 1"
    using assms by (simp add: field_simps)
  then show ?thesis by (simp add: f add_divide_distrib)
qed

lemma scaled_product_close:
  fixes w ms m :: int
  assumes w: "0 < w" "w \<le> m" and ms: "0 < ms" "ms < m" and m: "m < 2 ^ 25"
  defines "x \<equiv> (of_int w * of_int ms / of_int m :: rat)"
  defines "p \<equiv> float_mul (float_of_int w) (binary64 (float_of_int ms / float_of_int m))"
  shows "x - 1 / 2 ^ 26 < p" and "p < x + 1 / 2 ^ 26" and "0 < p"
proof -
  have big: "(2::int) ^ 25 < 2 ^ 53" by simp
  have fw: "float_of_int w = of_int w"
    unfolding float_of_int_def using w m big by (intro binary64_of_int) linarith+
  have fms: "float_of_int ms = of_int ms"
    unfolding float_of_int_def using ms m big by (intro binary64_of_int) linarith+
  have fm: "float_of_int m = of_int m"
    unfolding float_of_int_def using ms m big by (intro binary64_of_int) linarith+
  define q0 where "q0 = (of_int ms / of_int m :: rat)"
  define r where "r = binary64 q0"
  define y where "y = of_int w * r"
  have mpos: "(0::rat) < of_int m" using ms by simp
  have q0: "0 < q0" "q0 < 1"
    using ms mpos by (simp_all add: q0_def)
  have r_err: "\<bar>r - q0\<bar> \<le> 1 / 2 ^ 53"
  proof -
    have "\<bar>r - q0\<bar> \<le> q0 / 2 ^ 53" unfolding r_def by (rule binary64_error [OF q0(1)])
    also have "\<dots> \<le> 1 / 2 ^ 53" using q0(2) by (simp add: divide_right_mono)
    finally show ?thesis .
  qed
  have rpos: "0 < r" unfolding r_def by (rule binary64_pos [OF q0(1)])
  have wr: "(0::rat) < of_int w" "(of_int w :: rat) < 2 ^ 25"
  proof -
    show "(0::rat) < of_int w" using w by simp
    have "w < 2 ^ 25" using w m by linarith
    then have "(of_int w :: rat) < of_int (2 ^ 25)" by (rule of_int_less_iff [THEN iffD2])
    then show "(of_int w :: rat) < 2 ^ 25" by simp
  qed
  have xy: "y - x = of_int w * (r - q0)"
    by (simp add: y_def x_def q0_def algebra_simps)
  have y_err: "\<bar>y - x\<bar> \<le> 1 / 2 ^ 28"
  proof -
    have "\<bar>y - x\<bar> = of_int w * \<bar>r - q0\<bar>" using wr(1) by (simp add: xy abs_mult)
    also have "\<dots> \<le> 2 ^ 25 * (1 / 2 ^ 53)"
      using wr r_err by (intro mult_mono) auto
    also have "\<dots> = 1 / 2 ^ 28" by simp
    finally show ?thesis .
  qed
  have ypos: "0 < y" unfolding y_def using wr(1) rpos by simp
  have xle: "x \<le> of_int w"
  proof -
    have "x = of_int w * q0" by (simp add: x_def q0_def)
    also have "\<dots> \<le> of_int w * 1" using q0(2) wr(1) by (intro mult_left_mono) auto
    finally show ?thesis by simp
  qed
  have n1: "(1::rat) / 2 ^ 28 \<le> 1" and n2: "(2::rat) ^ 25 + 1 \<le> 2 ^ 26" by simp_all
  have yle: "y \<le> 2 ^ 26"
    using y_err xle wr(2) n1 n2 by linarith
  have pb: "p = binary64 y" by (simp add: p_def float_mul_def fw fms fm y_def r_def q0_def)
  have p_err: "\<bar>p - y\<bar> \<le> 1 / 2 ^ 27"
  proof -
    have "\<bar>p - y\<bar> \<le> y / 2 ^ 53" using binary64_error [OF ypos] by (simp add: pb)
    also have "\<dots> \<le> 2 ^ 26 / 2 ^ 53" using yle by (simp add: divide_right_mono)
    also have "\<dots> = 1 / 2 ^ 27" by simp
    finally show ?thesis .
  qed
  have e: "(1::rat) / 2 ^ 28 + 1 / 2 ^ 27 < 1 / 2 ^ 26" by simp
  show "x - 1 / 2 ^ 26 < p" using y_err p_err e by linarith
  show "p < x + 1 / 2 ^ 26" using y_err p_err e by linarith
  show "0 < p" unfolding pb by (rule binary64_pos [OF ypos])
qed

lemma scaled_dim_bounds:
  fixes w ms m :: int
  assumes w: "0 < w" "w \<le> m" and ms: "0 < ms" "ms < m" and m: "m < 2 ^ 25"
  defines "x \<equiv> (of_int w * of_int ms / of_int m :: rat)"
  defines "out \<equiv> py_int (float_mul (float_of_int w) (binary64 (float_of_int ms / float_of_int m)))"
  shows "\<lfloor>x\<rfloor> - 1 \<le> out" and "out \<le> \<lfloor>x\<rfloor>" and "out \<le> ms" and "out \<le> w" and "0 \<le> out"
    and "\<bar>out - round x\<bar> \<le> 1"
proof -
  define p where "p = float_mul (float_of_int w) (binary64 (float_of_int ms / float_of_int m))"
  note c = scaled_product_close [OF w ms m, folded x_def p_def]
  have mpos: "(0::rat) < of_int m" using ms by simp
  have x_alt: "x = of_int (w * ms) / of_int m" by (simp add: x_def)
  have gap: "x + 1 / of_int m \<le> of_int \<lfloor>x\<rfloor> + 1"
    unfolding x_alt using ms by (intro floor_ratio_gap) linarith
  have "(of_int m :: rat) < of_int (2 ^ 25)" using m by (rule of_int_less_iff [THEN iffD2])
  then have "(of_int m :: rat) < 2 ^ 26" by simp
  then have minv: "(1::rat) / 2 ^ 26 < 1 / of_int m"
    using mpos by (simp add: field_simps)
  have up: "p < of_int \<lfloor>x\<rfloor> + 1" using c(2) minv gap by linarith
  have fl: "of_int \<lfloor>x\<rfloor> \<le> x" "x < of_int \<lfloor>x\<rfloor> + 1" by linarith+
  have small: "(1::rat) / 2 ^ 26 < 1 / 2" by simp
  have lo: "of_int \<lfloor>x\<rfloor> - 1 < p" using c(1) fl(1) small by linarith
  have out: "out = \<lfloor>p\<rfloor>" using c(3) by (simp add: out_def py_int_def p_def)
  have pf: "of_int \<lfloor>p\<rfloor> \<le> p" "p < of_int \<lfloor>p\<rfloor> + 1" by linarith+
  have "of_int \<lfloor>x\<rfloor> - 1 < (of_int \<lfloor>p\<rfloor> + 1 :: rat)" using lo pf(2) by linarith
  then have "of_int (\<lfloor>x\<rfloor> - 1) < (of_int (\<lfloor>p\<rfloor> + 1) :: rat)" by simp
  then have "\<lfloor>x\<rfloor> - 1 < \<lfloor>p\<rfloor> + 1" by (rule of_int_less_iff [THEN iffD1])
  then show 1: "\<lfloor>x\<rfloor> - 1 \<le> out" unfolding out by linarith
  have "(of_int \<lfloor>p\<rfloor> :: rat) < of_int \<lfloor>x\<rfloor> + 1" using up pf(1) by linarith
  then have "(of_int \<lfloor>p\<rfloor> :: rat) < of_int (\<lfloor>x\<rfloor> + 1)" by simp
  then have "\<lfloor>p\<rfloor> < \<lfloor>x\<rfloor> + 1" by (rule of_int_less_iff [THEN iffD1])
  then show 2: "out \<le> \<lfloor>x\<rfloor>" unfolding out by linarith
  have "x \<le> of_int ms"
  proof -
    have "x = of_int ms * (of_int w / of_int m)" by (simp add: x_def)
    also have "\<dots> \<le> of_int ms * 1"
      using w ms mpos by (intro mult_left_mono) (auto simp: field_simps)
    finally show ?thesis by simp
  qed
  then have "\<lfloor>x\<rfloor> \<le> ms" by (simp add: floor_le_iff)
  with 2 show "out \<le> ms" by simp
  have "x \<le> of_int w"
  proof -
    have "x = of_int w * (of_int ms / of_int m)" by (simp add: x_def)
    also have "\<dots> \<le> of_int w * 1"
      using w ms mpos by (intro mult_left_mono) (auto simp: field_simps)
    finally show ?thesis by simp
  qed
  then have "\<lfloor>x\<rfloor> \<le> w" by (simp add: floor_le_iff)
  with 2 show "out \<le> w" by simp
  show "0 \<le> out" unfolding out using c(3) by simp
  show "\<bar>out - round x\<bar> \<le> 1"
  proof -
    have r1: "\<lfloor>x\<rfloor> \<le> round x" by (simp add: round_def floor_mono)
    have "x + 1 / 2 < of_int \<lfloor>x\<rfloor> + 2" using fl(2) by linarith
    then have "x + 1 / 2 < of_int (\<lfloor>x\<rfloor> + 2)" by simp
    then have "\<lfloor>x + 1 / 2\<rfloor> < \<lfloor>x\<rfloor> + 2" by (simp only: floor_less_iff)
    then have r2: "round x \<le> \<lfloor>x\<rfloor> + 1" by (simp add: round_def)
    have r3: "round x = \<lfloor>x\<rfloor>" if "out = \<lfloor>x\<rfloor> - 1"
    proof -
      from that have "\<lfloor>p\<rfloor> + 1 = \<lfloor>x\<rfloor>" unfolding out by simp
      then have "of_int \<lfloor>p\<rfloor> + 1 = (of_int \<lfloor>x\<rfloor> :: rat)" by (metis of_int_1 of_int_add)
      with pf(2) have "p < of_int \<lfloor>x\<rfloor>" by linarith
      with c(1) small have "x + 1 / 2 < of_int \<lfloor>x\<rfloor> + 1" by linarith
      then have "x + 1 / 2 < of_int (\<lfloor>x\<rfloor> + 1)" by simp
      then have "\<lfloor>x + 1 / 2\<rfloor> < \<lfloor>x\<rfloor> + 1" by (simp only: floor_less_iff)
      then have "round x < \<lfloor>x\<rfloor> + 1" by (simp add: round_def)
      with r1 show ?thesis by simp
    qed
    from 1 2 r1 r2 r3 show ?thesis by (cases "out = \<lfloor>x\<rfloor>") auto
  qed
qed

section \<open>Scaling to \<open>max_side\<close>\<close>

lemma ex_photo_scaled:
  "py_int (float_mul (float_of_int 561) (binary64 (float_of_int 512 / float_of_int 561))) = 511"
  "py_int (float_mul (float_of_int 400) (binary64 (float_of_int 512 / float_of_int 561))) = 365"
  "float_of_int 561 \<noteq> 0"
  by code_simp+

text \<open>
  Claim C8, as the claim states it, fails where it says that each side is the exact
  quotient rounded down.  The code computes the ratio and the product in floating
  point.  For the photograph of \<open>561 \<times> 400\<close> pixels and \<open>max_side = 512\<close> the exact
  quotient of the longer side is \<open>561 * 512 / 561 = 512\<close>, and the code asks for
  \<open>511 \<times> 365\<close>, on the PDF path and on the image path alike.
\<close>

theorem max_side_counterexample:
  "open_pdf_max_side ex_env (Some 512) ex_photo = Inr (ex_photo\<lparr>im_size := (511, 365)\<rparr>)
 \<and> load_image_max_side ex_env (Some 512) ex_photo = Inr (ex_photo\<lparr>im_size := (511, 365)\<rparr>)
 \<and> \<lfloor>(561 * 512 / 561 :: rat)\<rfloor> = 512"
proof -
  have s: "im_size ex_photo = (561, 400)" by (simp add: ex_photo_def)
  have r: "pil_resize ex_env im sz = Inr (im\<lparr>im_size := sz\<rparr>)" for im sz
    by (simp add: ex_env_def)
  have 1: "open_pdf_max_side ex_env (Some 512) ex_photo
             = Inr (ex_photo\<lparr>im_size := (511, 365)\<rparr>)"
    by (simp add: open_pdf_max_side_def s float_truediv_def ex_photo_scaled r Let_def)
  have 2: "load_image_max_side ex_env (Some 512) ex_photo
             = Inr (ex_photo\<lparr>im_size := (511, 365)\<rparr>)"
    by (simp add: load_image_max_side_def s float_truediv_def ex_photo_scaled r Let_def)
  have 3: "\<lfloor>(561 * 512 / 561 :: rat)\<rfloor> = 512" by simp
  from 1 2 3 show ?thesis by simp
qed

text \<open>
  Claim C8, amended.  The step is the same function on the PDF path and on the image
  path.  It leaves the image as it is when the longer side does not exceed
  \<open>max_side\<close>.  Otherwise, for sides below \<open>2^25\<close>, it asks for a resize to
  \<open>(W, H)\<close>, both sides being the products with one and the same double \<open>r\<close>
  (the rounded \<open>max_side / m\<close>), rounded down; each of them is the exact quotient
  \<open>side * max_side / m\<close> rounded down, or one less; neither exceeds \<open>max_side\<close> nor the
  side it comes from; and each is within one pixel of the exact quotient rounded to the
  nearest integer.
\<close>

theorem max_side_scaling:
  assumes "im_size im = (w, h)" and "0 < w" and "0 < h" and "max w h < 2 ^ 25" and "0 < ms"
  shows "load_image_max_side env (Some ms) im = open_pdf_max_side env (Some ms) im
       \<and> (max w h \<le> ms \<longrightarrow> open_pdf_max_side env (Some ms) im = Inr im)
       \<and> (ms < max w h \<longrightarrow>
            (\<exists>W H r. open_pdf_max_side env (Some ms) im = pil_resize env im (W, H) \<and>
               W = py_int (float_mul (float_of_int w) r) \<and>
               H = py_int (float_mul (float_of_int h) r) \<and>
               \<lfloor>(of_int w * of_int ms / of_int (max w h) :: rat)\<rfloor> - 1 \<le> W \<and>
               W \<le> \<lfloor>(of_int w * of_int ms / of_int (max w h) :: rat)\<rfloor> \<and>
               \<lfloor>(of_int h * of_int ms / of_int (max w h) :: rat)\<rfloor> - 1 \<le> H \<and>
               H \<le> \<lfloor>(of_int h * of_int ms / of_int (max w h) :: rat)\<rfloor> \<and>
               0 \<le> W \<and> 0 \<le> H \<and> max W H \<le> ms \<and> W \<le> w \<and> H \<le> h \<and>
               \<bar>W - round (of_int w * of_int ms / of_int (max w h) :: rat)\<bar> \<le> 1 \<and>
               \<bar>H - round (of_int h * of_int ms / of_int (max w h) :: rat)\<bar> \<le> 1))"
proof (intro conjI impI)
  show "load_image_max_side env (Some ms) im = open_pdf_max_side env (Some ms) im"
    by (simp add: load_image_max_side_def open_pdf_max_side_def)
next
  assume "max w h \<le> ms"
  then show "open_pdf_max_side env (Some ms) im = Inr im"
    using assms(1) by (auto simp: open_pdf_max_side_def Let_def max_def split: if_splits)
next
  assume big: "ms < max w h"
  define m where "m = max w h"
  define r where "r = binary64 (float_of_int ms / float_of_int m)"
  define W where "W = py_int (float_mul (float_of_int w) r)"
  define H where "H = py_int (float_mul (float_of_int h) r)"
  have m: "0 < m" "w \<le> m" "h \<le> m" "ms < m" "m < 2 ^ 25"
    using assms big by (simp_all add: m_def)
  have "(2::int) ^ 25 < 2 ^ 53" by simp
  with m have "float_of_int m = of_int m"
    unfolding float_of_int_def by (intro binary64_of_int) linarith+
  then have nz: "float_of_int m \<noteq> 0" using m(1) by simp
  have step: "open_pdf_max_side env (Some ms) im = pil_resize env im (W, H)"
    using assms(1) big nz
    by (simp add: open_pdf_max_side_def Let_def float_truediv_def W_def H_def r_def m_def)
  note bw = scaled_dim_bounds [OF assms(2) m(2) assms(5) m(4) m(5), folded r_def W_def]
  note bh = scaled_dim_bounds [OF assms(3) m(3) assms(5) m(4) m(5), folded r_def H_def]
  have mx: "max W H \<le> ms" using bw(3) bh(3) by simp
  show "\<exists>W H r. open_pdf_max_side env (Some ms) im = pil_resize env im (W, H) \<and>
               W = py_int (float_mul (float_of_int w) r) \<and>
               H = py_int (float_mul (float_of_int h) r) \<and>
               \<lfloor>(of_int w * of_int ms / of_int (max w h) :: rat)\<rfloor> - 1 \<le> W \<and>
               W \<le> \<lfloor>(of_int w * of_int ms / of_int (max w h) :: rat)\<rfloor> \<and>
               \<lfloor>(of_int h * of_int ms / of_int (max w h) :: rat)\<rfloor> - 1 \<le> H \<and>
               H \<le> \<lfloor>(of_int h * of_int ms / of_int (max w h) :: rat)\<rfloor> \<and>
               0 \<le> W \<and> 0 \<le> H \<and> max W H \<le> ms \<and> W \<le> w \<and> H \<le> h \<and>
               \<bar>W - round (of_int w * of_int ms / of_int (max w h) :: rat)\<bar> \<le> 1 \<and>
               \<bar>H - round (of_int h * of_int ms / of_int (max w h) :: rat)\<bar> \<le> 1"
    using step bw bh mx W_def H_def unfolding m_def by blast
qed

text \<open>
  The photograph with \<open>max_side = 512\<close> (scaled to \<open>511 \<times> 365\<close>) and with
  \<open>max_side = 600\<close> (left as it is).
\<close>

theorem max_side_scaling_witness:
  "im_size ex_photo = (561, 400) \<and> (0::int) < 561 \<and> (0::int) < 400
 \<and> max (561::int) 400 < 2 ^ 25 \<and> (0::int) < 512 \<and> (512::int) < max 561 400
 \<and> open_pdf_max_side ex_env (Some 512) ex_photo = pil_resize ex_env ex_photo (511, 365)
 \<and> \<lfloor>(561 * 512 / 561 :: rat)\<rfloor> - 1 \<le> 511 \<and> (511::int) \<le> 512
 \<and> \<bar>511 - round (561 * 512 / 561 :: rat)\<bar> \<le> 1
 \<and> \<bar>365 - round (400 * 512 / 561 :: rat)\<bar> \<le> 1
 \<and> max (561::int) 400 \<le> 600
 \<and> load_image_max_side ex_env (Some 600) ex_photo = Inr ex_photo"
proof -
  have s: "im_size ex_photo = (561, 400)" by (simp add: ex_photo_def)
  have h: "(0::int) < 561" "(0::int) < 400" "max (561::int) 400 < 2 ^ 25" "(0::int) < 512"
    "(0::int) < 600" "(512::int) < max 561 400" "max (561::int) 400 \<le> 600"
    by simp_all
  note a = max_side_scaling [OF s h(1) h(2) h(3) h(4), of ex_env]
  note b = max_side_scaling [OF s h(1) h(2) h(3) h(5), of ex_env]
  from a h(6) obtain W H r where
    st: "open_pdf_max_side ex_env (Some 512) ex_photo = pil_resize ex_env ex_photo (W, H)"
    and W: "\<bar>W - round (of_int 561 * of_int 512 / of_int (max 561 400) :: rat)\<bar> \<le> 1"
    and H: "\<bar>H - round (of_int 400 * of_int 512 / of_int (max 561 400) :: rat)\<bar> \<le> 1"
    by blast
  have r: "pil_resize ex_env im sz = Inr (im\<lparr>im_size := sz\<rparr>)" for im sz
    by (simp add: ex_env_def)
  have c: "open_pdf_max_side ex_env (Some 512) ex_photo
             = Inr (ex_photo\<lparr>im_size := (511, 365)\<rparr>)"
    by (simp add: open_pdf_max_side_def s float_truediv_def ex_photo_scaled r Let_def)
  from st c have "ex_photo\<lparr>im_size := (W, H)\<rparr> = ex_photo\<lparr>im_size := (511, 365)\<rparr>"
    by (simp add: r)
  then have "im_size (ex_photo\<lparr>im_size := (W, H)\<rparr>) = im_size (ex_photo\<lparr>im_size := (511, 365)\<rparr>)"
    by (rule arg_cong)
  then have WH: "W = 511" "H = 365" by simp_all
  have 1: "open_pdf_max_side ex_env (Some 512) ex_photo = pil_resize ex_env ex_photo (511, 365)"
    using st WH by simp
  have 2: "\<bar>511 - round (561 * 512 / 561 :: rat)\<bar> \<le> 1"
    "\<bar>365 - round (400 * 512 / 561 :: rat)\<bar> \<le> 1"
    using W H WH by simp_all
  have 3: "load_image_max_side ex_env (Some 600) ex_photo = Inr ex_photo"
    using b h(7) by simp
  have 4: "\<lfloor>(561 * 512 / 561 :: rat)\<rfloor> - 1 \<le> 511" by simp
  from s h 1 2 3 4 show ?thesis by simp
qed

end
